theory Spec2Isabelle
  imports Complex_Main
begin

section \<open>CSV rows to GeoJSON feature collections: the converter of nrl-sdk-lib\<close>

text \<open>
  A shallow embedding of \<^verbatim>\<open>nrl_sdk_lib/converters/csv_to_geojson.py\<close>.

  Python strings are lists of bytes in UTF-8, so that comparing two strings and looking a
  string up in a dictionary agree with Python. A value that may be \<^verbatim>\<open>None\<close> is an
  \<open>option\<close>. Every \<^verbatim>\<open>raise\<close> is a result \<open>Inl e\<close>; a function that can raise returns
  \<open>py_error + 'a\<close>.

  Two builtins of Python are parameters of the functions that call them:
  \<^item> \<open>pf :: string \<Rightarrow> 'f option\<close> is \<^verbatim>\<open>float(s)\<close>: \<open>None\<close> where it raises ValueError;
  \<^item> \<open>pu :: string \<Rightarrow> 'u option\<close> is \<^verbatim>\<open>uuid.UUID(s)\<close>: \<open>None\<close> where it raises ValueError.
  The theorems hold for every such pair of functions.
\<close>

subsection \<open>Strings\<close>

text \<open>The two bytes of the letter o-slash, and of the section sign, in UTF-8.\<close>

definition oslash :: string where
  "oslash = [CHR 0xC3, CHR 0xB8]"

definition section_sign :: string where
  "section_sign = [CHR 0xC2, CHR 0xA7]"

text \<open>\<^verbatim>\<open>value.replace(",", ".")\<close>: both strings are one ASCII character.\<close>

definition replace_comma :: "string \<Rightarrow> string" where
  "replace_comma s = map (\<lambda>c. if c = CHR '','' then CHR ''.'' else c) s"

text \<open>
  \<^verbatim>\<open>str.lower()\<close> on the ASCII letters. The source compares the result with
  \<^verbatim>\<open>"topp"\<close> and \<^verbatim>\<open>"fot"\<close> only, and no character outside ASCII has one of the
  letters t, o, p, f as its lower case.
\<close>

definition lower_char :: "char \<Rightarrow> char" where
  "lower_char c =
     (if (65::nat) \<le> of_char c \<and> of_char c \<le> (90::nat)
      then char_of (of_char c + (32::nat)) else c)"

definition lower :: "string \<Rightarrow> string" where
  "lower s = map lower_char s"

text \<open>Python's truth value of a \<^verbatim>\<open>str | None\<close>: neither \<^verbatim>\<open>None\<close> nor empty.\<close>

definition truthy :: "string option \<Rightarrow> bool" where
  "truthy v = (case v of None \<Rightarrow> False | Some s \<Rightarrow> s \<noteq> [])"

subsection \<open>Errors\<close>

text \<open>
  Every exception the converter raises itself is a \<^verbatim>\<open>ValueError\<close> with a formatted
  message; \<open>value_error\<close> keeps the parts of each message apart:
  \<^item> \<open>UnknownLuftspenntype v\<close>: \<^verbatim>\<open>f"Unknown Luftspenntype: {value}"\<close>
  \<^item> \<open>UnknownMasttype v\<close>: \<^verbatim>\<open>f"Unknown Masttype: {value}"\<close>
  \<^item> \<open>UnknownStatus v\<close>: \<^verbatim>\<open>f"Unknown Status: {value}"\<close>
  \<^item> \<open>UnknownTabellID v\<close>: \<^verbatim>\<open>f"Unknown Tabell ID: {table_id}"\<close>
  \<^item> \<open>NoValidUUID fields\<close>: \<^verbatim>\<open>f"No valid UUID found in fields: {fields}"\<close>
  \<^item> \<open>Missing field\<close>: \<^verbatim>\<open>f"Missing {field_name}"\<close>
  \<^item> \<open>NotAValidNumber field v\<close>: \<^verbatim>\<open>f"{field_name} is not a valid number: {value}"\<close>
  \<^item> \<open>LineStringRequires2Points\<close>: \<^verbatim>\<open>"LineString requires exactly 2 points"\<close>
  \<^item> \<open>InvalidCoordinateValues e\<close>: \<^verbatim>\<open>f"Invalid coordinate values: {e}"\<close>
  \<^item> \<open>CouldNotConvert s\<close>: the ValueError of \<^verbatim>\<open>float(s)\<close> itself
  \<^item> \<open>UnpackMismatch n k\<close>: the ValueError of unpacking \<open>k\<close> values into \<open>n\<close> names
  \<^item> \<open>BadlyFormedUUID s\<close>: the ValueError of \<^verbatim>\<open>uuid.UUID(s)\<close> itself
\<close>

datatype value_error =
    UnknownLuftspenntype "string option"
  | UnknownMasttype "string option"
  | UnknownStatus "string option"
  | UnknownTabellID "string option"
  | NoValidUUID "string list"
  | Missing string
  | NotAValidNumber string string
  | LineStringRequires2Points
  | InvalidCoordinateValues value_error
  | CouldNotConvert string
  | UnpackMismatch nat nat
  | BadlyFormedUUID string

datatype py_error = ValueError value_error | KeyError string | IndexError

text \<open>Sequencing of two computations that may raise.\<close>

definition rbind :: "py_error + 'a \<Rightarrow> ('a \<Rightarrow> py_error + 'b) \<Rightarrow> py_error + 'b" where
  "rbind m k = (case m of Inl e \<Rightarrow> Inl e | Inr x \<Rightarrow> k x)"

text \<open>\<^verbatim>\<open>xs[i]\<close> for a constant index \<open>i \<ge> 0\<close>.\<close>

definition item :: "'a list \<Rightarrow> nat \<Rightarrow> py_error + 'a" where
  "item xs i = (if i < length xs then Inr (xs ! i) else Inl IndexError)"

subsection \<open>Rows\<close>

text \<open>
  A row of \<^verbatim>\<open>csv.DictReader\<close>: a dictionary from column names to values. The value of
  a column that the line is too short for is \<^verbatim>\<open>None\<close>.
\<close>

type_synonym row = "string \<rightharpoonup> string option"

text \<open>\<^verbatim>\<open>row.get(k)\<close>, \<^verbatim>\<open>row.get(k, d)\<close> and \<^verbatim>\<open>row[k]\<close>.\<close>

definition row_get :: "row \<Rightarrow> string \<Rightarrow> string option" where
  "row_get row k = (case row k of None \<Rightarrow> None | Some v \<Rightarrow> v)"

definition row_get_default :: "row \<Rightarrow> string \<Rightarrow> string \<Rightarrow> string option" where
  "row_get_default row k d = (case row k of None \<Rightarrow> Some d | Some v \<Rightarrow> v)"

definition row_item :: "row \<Rightarrow> string \<Rightarrow> py_error + string option" where
  "row_item row k = (case row k of None \<Rightarrow> Inl (KeyError k) | Some v \<Rightarrow> Inr v)"

subsection \<open>The models\<close>

text \<open>
  Modelled from the spec: the classes of \<^verbatim>\<open>nrl_sdk_lib.models\<close> (the enumerations,
  \<^verbatim>\<open>Crs\<close>, \<^verbatim>\<open>Point\<close>, \<^verbatim>\<open>LineString\<close>, \<^verbatim>\<open>NrlMast\<close>, \<^verbatim>\<open>NrlLuftspenn\<close>,
  \<^verbatim>\<open>Feature\<close>, \<^verbatim>\<open>FeatureCollection\<close>) are not among the sources. They are taken as
  plain containers of the keyword arguments the converter passes, that accept every
  value; an argument the converter does not pass is \<open>None\<close>. Members of the enumerations
  are the names the converter uses, with o-slash written \<open>o\<close>.
\<close>

datatype LuftspennType = hogspent | lavspent | regional | bardun

datatype MastType = hogspentmast | lavspentmast | regionalmast

datatype FeatureStatus = eksisterende | planlagt_oppfort | planlagt_fjernet | fjernet

datatype LuftfartsHinderLyssetting =
    lyssatt
  | mellomintensitet_type_a | mellomintensitet_type_b | mellomintensitet_type_c
  | lavintensitet_type_a | lavintensitet_type_b
  | hoyintensitet_type_a | hoyintensitet_type_b

datatype LuftfartsHinderMerking = fargermerking | markor

datatype Hoydereferanse = topp | fot

record CrsProperties =
  name :: string

record Crs =
  properties :: CrsProperties

datatype 'f geometry = Point "'f list" | LineString "'f list list"

record KomponentReferanse =
  komponentkodeverdi :: "string option"

record ('u, 'f) NrlMast =
  komponentident :: 'u
  status :: FeatureStatus
  verifisert_rapporteringsnoyaktighet :: string
  feature_type :: string
  mast_type :: MastType
  luftfartshinderlyssetting :: "LuftfartsHinderLyssetting option"
  luftfartshindermerking :: "LuftfartsHinderMerking option"
  hoydereferanse :: "Hoydereferanse option"
  vertikal_avstand :: "'f option"

record ('u, 'f) NrlLuftspenn =
  luftspenn_type :: LuftspennType
  span_komponentident :: 'u
  nrl_mast :: "'u list option"
  span_status :: FeatureStatus
  span_verifisert_rapporteringsnoyaktighet :: string
  span_feature_type :: string
  referanse :: "KomponentReferanse option"
  span_luftfartshinderlyssetting :: "LuftfartsHinderLyssetting option"
  span_luftfartshindermerking :: "LuftfartsHinderMerking option"
  anleggsbredde :: "'f option"

datatype ('u, 'f) feature_properties =
    Mast "('u, 'f) NrlMast"
  | Luftspenn "('u, 'f) NrlLuftspenn"

record ('u, 'f) Feature =
  geometry :: "'f geometry"
  feature_properties :: "('u, 'f) feature_properties"

record ('u, 'f) FeatureCollection =
  crs :: Crs
  features :: "('u, 'f) Feature list"

subsection \<open>The enumeration resolvers\<close>

text \<open>
  Each resolver builds a dictionary and calls \<^verbatim>\<open>mapping.get(value)\<close>; \<open>dict_get\<close> is that
  call, on the dictionary as the list of its items. \<^verbatim>\<open>None\<close> is no key of any of them.
\<close>

definition dict_get :: "(string \<times> 'a) list \<Rightarrow> string option \<Rightarrow> 'a option" where
  "dict_get mapping v = (case v of None \<Rightarrow> None | Some s \<Rightarrow> map_of mapping s)"

definition luftspenn_type_mapping :: "(string \<times> LuftspennType) list" where
  "luftspenn_type_mapping =
     [(''Ledning, h'' @ oslash @ ''yspent'', hogspent),
      (''Ledning, lavspent'', lavspent),
      (''Ledning, regionalnett'', regional)]"

definition map_luftspenn_type :: "string option \<Rightarrow> py_error + LuftspennType" where
  "map_luftspenn_type v =
     (case dict_get luftspenn_type_mapping v of
        None \<Rightarrow> Inl (ValueError (UnknownLuftspenntype v))
      | Some r \<Rightarrow> Inr r)"

definition mast_type_mapping :: "(string \<times> MastType) list" where
  "mast_type_mapping =
     [(''Mast, h'' @ oslash @ ''yspent'', hogspentmast),
      (''Mast, lavspent'', lavspentmast),
      (''Mast, regionalnett'', regionalmast)]"

definition map_mast_type :: "string option \<Rightarrow> py_error + MastType" where
  "map_mast_type v =
     (case dict_get mast_type_mapping v of
        None \<Rightarrow> Inl (ValueError (UnknownMasttype v))
      | Some r \<Rightarrow> Inr r)"

definition feature_status_mapping :: "(string \<times> FeatureStatus) list" where
  "feature_status_mapping =
     [(''Eksisterende'', eksisterende),
      (''eksisterende'', eksisterende),
      (''Planlagt oppf'' @ oslash @ ''rt'', planlagt_oppfort),
      (''planlagtOppf'' @ oslash @ ''rt'', planlagt_oppfort),
      (''Planlagt fjernet'', planlagt_fjernet),
      (''planlagtFjernet'', planlagt_fjernet),
      (''Fjernet'', fjernet),
      (''fjernet'', fjernet)]"

definition map_feature_status :: "string option \<Rightarrow> py_error + FeatureStatus" where
  "map_feature_status v =
     (case dict_get feature_status_mapping v of
        None \<Rightarrow> Inl (ValueError (UnknownStatus v))
      | Some r \<Rightarrow> Inr r)"

definition lighting_kind_mapping :: "(string \<times> LuftfartsHinderLyssetting) list" where
  "lighting_kind_mapping =
     [(''Lyssatt'', lyssatt),
      (''Mellomintensitet, type A'', mellomintensitet_type_a),
      (''Mellomintensitet, type B'', mellomintensitet_type_b),
      (''Mellomintensitet, type C'', mellomintensitet_type_c),
      (''Lavintensitet, type A'', lavintensitet_type_a),
      (''Lavintensitet, type B'', lavintensitet_type_b),
      (''H'' @ oslash @ ''yintensitet, type A'', hoyintensitet_type_a),
      (''H'' @ oslash @ ''yintensitet, type B'', hoyintensitet_type_b)]"

definition map_lighting_kind :: "string option \<Rightarrow> LuftfartsHinderLyssetting option" where
  "map_lighting_kind v =
     (if \<not> truthy v then None else dict_get lighting_kind_mapping v)"

definition marking_kind_mapping :: "(string \<times> LuftfartsHinderMerking) list" where
  "marking_kind_mapping =
     [(''Fargemerking'', fargermerking),
      (''Mark'' @ oslash @ ''r'', markor)]"

definition map_marking_kind :: "string option \<Rightarrow> LuftfartsHinderMerking option" where
  "map_marking_kind v =
     (if \<not> truthy v then None else dict_get marking_kind_mapping v)"

definition map_location_method :: "string option \<Rightarrow> string" where
  "map_location_method v =
     (if v = Some (''FOR-2020-10-16-2068, '' @ section_sign @ ''5(1)'')
      then ''20230101_5-1'' else ''0'')"

subsection \<open>Value coercion\<close>

text \<open>
  \<^verbatim>\<open>get_uuid\<close>: the loop over the candidate fields returns at the first value that is
  truthy and that \<^verbatim>\<open>uuid.UUID\<close> accepts; after the loop, the function raises.
\<close>

fun get_uuid_loop :: "(string \<Rightarrow> 'u option) \<Rightarrow> row \<Rightarrow> string list \<Rightarrow> 'u option" where
  "get_uuid_loop pu row [] = None"
| "get_uuid_loop pu row (field # names) =
     (let v = row_get row field in
      if truthy v then
        (case pu (the v) of
           Some u \<Rightarrow> Some u
         | None \<Rightarrow> get_uuid_loop pu row names)
      else get_uuid_loop pu row names)"

definition get_uuid :: "(string \<Rightarrow> 'u option) \<Rightarrow> row \<Rightarrow> string list \<Rightarrow> py_error + 'u" where
  "get_uuid pu row names =
     (case get_uuid_loop pu row names of
        Some u \<Rightarrow> Inr u
      | None \<Rightarrow> Inl (ValueError (NoValidUUID names)))"

definition parse_float :: "(string \<Rightarrow> 'f option) \<Rightarrow> string option \<Rightarrow> string \<Rightarrow> py_error + 'f" where
  "parse_float pf v field_name =
     (case v of
        None \<Rightarrow> Inl (ValueError (Missing field_name))
      | Some s \<Rightarrow>
          (case pf (replace_comma s) of
             Some x \<Rightarrow> Inr x
           | None \<Rightarrow> Inl (ValueError (NotAValidNumber field_name s))))"

text \<open>
  \<^verbatim>\<open>parse_coordinates\<close>: the comprehension skips \<^verbatim>\<open>None\<close> and the empty string, and
  the ValueError of \<^verbatim>\<open>float\<close> leaves it at the first text that is no number.
\<close>

fun parse_coordinates :: "(string \<Rightarrow> 'f option) \<Rightarrow> string option list \<Rightarrow> py_error + 'f list" where
  "parse_coordinates pf [] = Inr []"
| "parse_coordinates pf (None # coords) = parse_coordinates pf coords"
| "parse_coordinates pf (Some c # coords) =
     (if c = [] then parse_coordinates pf coords
      else
        (case pf (replace_comma c) of
           None \<Rightarrow> Inl (ValueError (CouldNotConvert (replace_comma c)))
         | Some x \<Rightarrow> rbind (parse_coordinates pf coords) (\<lambda>xs. Inr (x # xs))))"

subsection \<open>The geometry and CRS builder\<close>

text \<open>
  \<^verbatim>\<open>all(coord[2] not in [None, ""] for coord in coordinates)\<close>: the generator stops at
  the first coordinate whose third component is \<^verbatim>\<open>None\<close> or empty, and \<^verbatim>\<open>coord[2]\<close>
  raises IndexError on a coordinate of fewer than three components.
\<close>

fun has_z_all :: "string option list list \<Rightarrow> py_error + bool" where
  "has_z_all [] = Inr True"
| "has_z_all (coord # coordinates) =
     rbind (item coord 2) (\<lambda>c2.
       if c2 \<noteq> None \<and> c2 \<noteq> Some [] then has_z_all coordinates else Inr False)"

text \<open>The two comprehensions of the line branches, each component read in the source's order.\<close>

fun line_coords_z :: "(string \<Rightarrow> 'f option) \<Rightarrow> string option list list \<Rightarrow> py_error + 'f list list" where
  "line_coords_z pf [] = Inr []"
| "line_coords_z pf (c # coordinates) =
     rbind (item c 1) (\<lambda>c1. rbind (parse_float pf c1 ''y'') (\<lambda>y.
     rbind (item c 0) (\<lambda>c0. rbind (parse_float pf c0 ''x'') (\<lambda>x.
     rbind (item c 2) (\<lambda>c2. rbind (parse_float pf c2 ''z'') (\<lambda>z.
     rbind (line_coords_z pf coordinates) (\<lambda>coords. Inr ([y, x, z] # coords))))))))"

fun line_coords :: "(string \<Rightarrow> 'f option) \<Rightarrow> string option list list \<Rightarrow> py_error + 'f list list" where
  "line_coords pf [] = Inr []"
| "line_coords pf (c # coordinates) =
     rbind (item c 1) (\<lambda>c1. rbind (parse_float pf c1 ''y'') (\<lambda>y.
     rbind (item c 0) (\<lambda>c0. rbind (parse_float pf c0 ''x'') (\<lambda>x.
     rbind (line_coords pf coordinates) (\<lambda>coords. Inr ([y, x] # coords))))))"

text \<open>
  \<^verbatim>\<open>x, y, z = parse_coordinates(coordinates[0])\<close> and
  \<^verbatim>\<open>x, y = parse_coordinates(coordinates[0][:2])\<close>, with the list \<^verbatim>\<open>[y, x, z]\<close> or
  \<^verbatim>\<open>[y, x]\<close> that the point is built from: unpacking a list of another length raises
  ValueError.
\<close>

definition point_coords_z :: "(string \<Rightarrow> 'f option) \<Rightarrow> string option list list \<Rightarrow> py_error + 'f list" where
  "point_coords_z pf coordinates =
     rbind (item coordinates 0) (\<lambda>c. rbind (parse_coordinates pf c) (\<lambda>vs.
       if length vs = 3 then Inr [vs ! 1, vs ! 0, vs ! 2]
       else Inl (ValueError (UnpackMismatch 3 (length vs)))))"

definition point_coords :: "(string \<Rightarrow> 'f option) \<Rightarrow> string option list list \<Rightarrow> py_error + 'f list" where
  "point_coords pf coordinates =
     rbind (item coordinates 0) (\<lambda>c. rbind (parse_coordinates pf (take 2 c)) (\<lambda>vs.
       if length vs = 2 then Inr [vs ! 1, vs ! 0]
       else Inl (ValueError (UnpackMismatch 2 (length vs)))))"

text \<open>\<^verbatim>\<open>except ValueError as e: raise ValueError(f"Invalid coordinate values: {e}")\<close>\<close>

definition except_value_error :: "py_error + 'a \<Rightarrow> py_error + 'a" where
  "except_value_error m =
     (case m of
        Inl (ValueError e) \<Rightarrow> Inl (ValueError (InvalidCoordinateValues e))
      | Inl e \<Rightarrow> Inl e
      | Inr r \<Rightarrow> Inr r)"

text \<open>\<^verbatim>\<open>Crs(properties=CrsProperties(name=n))\<close>\<close>

definition mk_crs :: "string \<Rightarrow> Crs" where
  "mk_crs n = \<lparr>properties = \<lparr>name = n\<rparr>\<rparr>"

definition create_geometry ::
  "(string \<Rightarrow> 'f option) \<Rightarrow> string option list list \<Rightarrow> bool \<Rightarrow> py_error + ('f geometry \<times> Crs)" where
  "create_geometry pf coordinates is_line =
     rbind (has_z_all coordinates) (\<lambda>has_z.
       if is_line \<and> length coordinates \<noteq> 2
       then Inl (ValueError LineStringRequires2Points)
       else except_value_error
         (if has_z then
            rbind (if is_line
                   then rbind (line_coords_z pf coordinates) (\<lambda>coords. Inr (LineString coords))
                   else rbind (point_coords_z pf coordinates) (\<lambda>coords. Inr (Point coords)))
              (\<lambda>g. Inr (g, mk_crs ''EPSG:5972''))
          else
            rbind (if is_line
                   then rbind (line_coords pf coordinates) (\<lambda>coords. Inr (LineString coords))
                   else rbind (point_coords pf coordinates) (\<lambda>coords. Inr (Point coords)))
              (\<lambda>g. Inr (g, mk_crs ''EPSG:25832''))))"

subsection \<open>The feature assemblers\<close>

text \<open>The conditional expression that reads the elevation reference of a mast.\<close>

definition hoydereferanse_of :: "row \<Rightarrow> Hoydereferanse option" where
  "hoydereferanse_of row =
     (let v = row_get row ''Hoydereferanse (NRL)'' in
      if truthy v then
        (if lower (the v) = ''topp'' then Some topp
         else if lower (the v) = ''fot'' then Some fot
         else None)
      else None)"

text \<open>
  \<^verbatim>\<open>parse_float(row[k], field_name) if row.get(k) else None\<close>, of the mast's vertical
  distance and of the span's width.
\<close>

definition optional_float :: "(string \<Rightarrow> 'f option) \<Rightarrow> row \<Rightarrow> string \<Rightarrow> string \<Rightarrow> py_error + 'f option" where
  "optional_float pf row k field_name =
     (if truthy (row_get row k)
      then rbind (parse_float pf (row_get row k) field_name) (\<lambda>x. Inr (Some x))
      else Inr None)"

text \<open>\<^verbatim>\<open>KomponentReferanse(komponentkodeverdi=row.get("ID", "")) if row.get("ID") else None\<close>\<close>

definition komponentreferanse_of :: "row \<Rightarrow> KomponentReferanse option" where
  "komponentreferanse_of row =
     (if truthy (row_get row ''ID'')
      then Some \<lparr>komponentkodeverdi = row_get_default row ''ID'' []\<rparr>
      else None)"

text \<open>The list of the two coordinates of a span; \<^verbatim>\<open>row["x1"]\<close> raises KeyError on a missing column.\<close>

definition span_coordinates :: "row \<Rightarrow> py_error + string option list list" where
  "span_coordinates row =
     rbind (row_item row ''x1'') (\<lambda>x1. rbind (row_item row ''y1'') (\<lambda>y1.
     rbind (row_item row ''x2'') (\<lambda>x2. rbind (row_item row ''y2'') (\<lambda>y2.
       Inr [[x1, y1, row_get_default row ''z1'' []],
            [x2, y2, row_get_default row ''z2'' []]]))))"

definition convert_overhead_structure_rows ::
  "(string \<Rightarrow> 'f option) \<Rightarrow> (string \<Rightarrow> 'u option) \<Rightarrow> row \<Rightarrow> py_error + (('u, 'f) Feature \<times> Crs)" where
  "convert_overhead_structure_rows pf pu row =
     rbind (get_uuid pu row [''OverheadStructure_uuid'', ''ID'']) (\<lambda>ident.
     rbind (map_mast_type (row_get row ''Masttype (NRL)'')) (\<lambda>masttype.
     rbind (map_feature_status (row_get row ''Status (NRL)'')) (\<lambda>fstatus.
     let noyaktighet = map_location_method (row_get row (''Verifisert n'' @ oslash @ ''yaktighet (NRL)''));
         lyssetting = map_lighting_kind (row_get row ''Luftfartshinderlyssetting(NRL)'');
         merking = map_marking_kind (row_get row ''Luftfartshindermerking (NRL)'');
         href = hoydereferanse_of row
     in
     rbind (optional_float pf row ''Vertikalavstand meter (NRL)'' ''Vertikalavstand'') (\<lambda>max_height.
     rbind (row_item row ''x'') (\<lambda>x. rbind (row_item row ''y'') (\<lambda>y.
     rbind (create_geometry pf [[x, y, row_get_default row ''z'' []]] False) (\<lambda>(point, c).
       Inr (\<lparr>geometry = point,
              feature_properties = Mast
                \<lparr>komponentident = ident,
                 status = fstatus,
                 verifisert_rapporteringsnoyaktighet = noyaktighet,
                 feature_type = ''NrlMast'',
                 mast_type = masttype,
                 luftfartshinderlyssetting = lyssetting,
                 luftfartshindermerking = merking,
                 hoydereferanse = href,
                 vertikal_avstand = max_height\<rparr>\<rparr>, c))))))))"

definition convert_guy_segments_rows ::
  "(string \<Rightarrow> 'f option) \<Rightarrow> (string \<Rightarrow> 'u option) \<Rightarrow> row \<Rightarrow> py_error + (('u, 'f) Feature \<times> Crs)" where
  "convert_guy_segments_rows pf pu row =
     rbind (get_uuid pu row [''Guy_uuid'', ''ID'']) (\<lambda>ident.
     rbind (map_feature_status (row_get row ''Status (NRL)'')) (\<lambda>fstatus.
     let noyaktighet = map_location_method (row_get row ''Vertikalavstand meter (NRL)'') in
     rbind (span_coordinates row) (\<lambda>coordinates.
     rbind (create_geometry pf coordinates True) (\<lambda>(linestring, c).
       Inr (\<lparr>geometry = linestring,
              feature_properties = Luftspenn
                \<lparr>luftspenn_type = bardun,
                 span_komponentident = ident,
                 nrl_mast = None,
                 span_status = fstatus,
                 span_verifisert_rapporteringsnoyaktighet = noyaktighet,
                 span_feature_type = ''NrlLuftspenn'',
                 referanse = komponentreferanse_of row,
                 span_luftfartshinderlyssetting = None,
                 span_luftfartshindermerking = None,
                 anleggsbredde = None\<rparr>\<rparr>, c)))))"

text \<open>
  \<^verbatim>\<open>[uuid.UUID(row[f"Mast_{i}_ObjectID"]) for i in [1, 2] if row.get(f"Mast_{i}_ObjectID")]\<close>:
  the ValueError of \<^verbatim>\<open>uuid.UUID\<close> is not caught.
\<close>

fun mast_refs :: "(string \<Rightarrow> 'u option) \<Rightarrow> row \<Rightarrow> string list \<Rightarrow> py_error + 'u list" where
  "mast_refs pu row [] = Inr []"
| "mast_refs pu row (k # ks) =
     (if truthy (row_get row k) then
        (case pu (the (row_get row k)) of
           None \<Rightarrow> Inl (ValueError (BadlyFormedUUID (the (row_get row k))))
         | Some u \<Rightarrow> rbind (mast_refs pu row ks) (\<lambda>us. Inr (u # us)))
      else mast_refs pu row ks)"

text \<open>
  The two optional resolvers are called on the name of the column, a string constant, as
  the source has it.
\<close>

definition convert_ac_linesegments_rows ::
  "(string \<Rightarrow> 'f option) \<Rightarrow> (string \<Rightarrow> 'u option) \<Rightarrow> row \<Rightarrow> py_error + (('u, 'f) Feature \<times> Crs)" where
  "convert_ac_linesegments_rows pf pu row =
     rbind (get_uuid pu row [''ACLineSegmentSpan_uuid'', ''ID'']) (\<lambda>ident.
     rbind (map_feature_status (row_get row ''Status (NRL)'')) (\<lambda>fstatus.
     rbind (map_luftspenn_type (row_get row ''Luftspenntype (NRL)'')) (\<lambda>luftspennstype.
     let noyaktighet = map_location_method (row_get row (''Verifisert n'' @ oslash @ ''yaktighet (NRL)''));
         lyssetting = map_lighting_kind (Some ''Luftfartshinderlyssetting(NRL)'');
         merking = map_marking_kind (Some ''Luftfartshindermerking(NRL)'')
     in
     rbind (span_coordinates row) (\<lambda>coordinates.
     rbind (create_geometry pf coordinates True) (\<lambda>(linestring, c).
     rbind (mast_refs pu row [''Mast_1_ObjectID'', ''Mast_2_ObjectID'']) (\<lambda>mast.
     rbind (optional_float pf row ''Anleggsbredde meter (NRL)'' ''Anleggsbredde'') (\<lambda>bredde.
       Inr (\<lparr>geometry = linestring,
              feature_properties = Luftspenn
                \<lparr>luftspenn_type = luftspennstype,
                 span_komponentident = ident,
                 nrl_mast = Some mast,
                 span_status = fstatus,
                 span_verifisert_rapporteringsnoyaktighet = noyaktighet,
                 span_feature_type = ''NrlLuftspenn'',
                 referanse = komponentreferanse_of row,
                 span_luftfartshinderlyssetting = lyssetting,
                 span_luftfartshindermerking = merking,
                 anleggsbredde = bredde\<rparr>\<rparr>, c))))))))"

subsection \<open>The row classifier\<close>

definition process_row ::
  "(string \<Rightarrow> 'f option) \<Rightarrow> (string \<Rightarrow> 'u option) \<Rightarrow> row \<Rightarrow> py_error + (('u, 'f) Feature \<times> Crs)" where
  "process_row pf pu row =
     (let table_id = row_get row ''Tabell ID'' in
      if table_id = Some ''261'' then
        rbind (row_item row ''Betegnelse'') (\<lambda>b.
          if b = Some ''Bardunline''
          then convert_guy_segments_rows pf pu row
          else convert_ac_linesegments_rows pf pu row)
      else if table_id = Some ''109'' then convert_overhead_structure_rows pf pu row
      else Inl (ValueError (UnknownTabellID table_id)))"

subsection \<open>The collection grouper\<close>

text \<open>
  \<^verbatim>\<open>feature_by_crs\<close> is a dictionary, which keeps its keys in the order of their first
  insertion: the list of its items. \<open>setdefault_append d k v\<close> is
  \<^verbatim>\<open>d.setdefault(k, []).append(v)\<close>.
\<close>

fun setdefault_append :: "('k \<times> 'v list) list \<Rightarrow> 'k \<Rightarrow> 'v \<Rightarrow> ('k \<times> 'v list) list" where
  "setdefault_append [] k v = [(k, [v])]"
| "setdefault_append ((k', vs) # d) k v =
     (if k' = k then (k', vs @ [v]) # d else (k', vs) # setdefault_append d k v)"

text \<open>The loop over the rows of the reader; an exception of \<^verbatim>\<open>process_row\<close> leaves it.\<close>

fun process_rows ::
  "(string \<Rightarrow> 'f option) \<Rightarrow> (string \<Rightarrow> 'u option) \<Rightarrow> (string \<times> ('u, 'f) Feature list) list \<Rightarrow> row list
     \<Rightarrow> py_error + (string \<times> ('u, 'f) Feature list) list" where
  "process_rows pf pu feature_by_crs [] = Inr feature_by_crs"
| "process_rows pf pu feature_by_crs (row # reader) =
     rbind (process_row pf pu row) (\<lambda>(feature, c).
       process_rows pf pu (setdefault_append feature_by_crs (name (properties c)) feature) reader)"

text \<open>
  \<^verbatim>\<open>_process_csv_file\<close>, on the rows that \<^verbatim>\<open>csv.DictReader\<close> yields (reading the
  file is outside the converter).
\<close>

definition process_csv_file ::
  "(string \<Rightarrow> 'f option) \<Rightarrow> (string \<Rightarrow> 'u option) \<Rightarrow> row list \<Rightarrow> py_error + ('u, 'f) FeatureCollection list" where
  "process_csv_file pf pu reader =
     rbind (process_rows pf pu [] reader) (\<lambda>feature_by_crs.
       Inr (map (\<lambda>(crs_name, fs). \<lparr>crs = mk_crs crs_name, features = fs\<rparr>) feature_by_crs))"

subsection \<open>Two readers that instantiate the builtins in the examples\<close>

text \<open>
  \<open>decimal_float\<close> reads a plain decimal literal (digits, with at most one dot) as the
  rational number it denotes. Python's \<^verbatim>\<open>float\<close> accepts more (a sign, an exponent,
  blanks, \<^verbatim>\<open>inf\<close>, \<^verbatim>\<open>nan\<close>) and rounds to binary64; no theorem depends on this reader,
  it only stands for \<open>pf\<close> where an example needs a function to run.
\<close>

definition digit_of :: "char \<Rightarrow> nat option" where
  "digit_of c =
     (if (48::nat) \<le> of_char c \<and> of_char c \<le> (57::nat)
      then Some (of_char c - 48) else None)"

fun digits_value :: "nat \<Rightarrow> string \<Rightarrow> nat option" where
  "digits_value acc [] = Some acc"
| "digits_value acc (c # cs) =
     (case digit_of c of None \<Rightarrow> None | Some d \<Rightarrow> digits_value (10 * acc + d) cs)"

definition decimal_float :: "string \<Rightarrow> rat option" where
  "decimal_float s =
     (let ip = takeWhile (\<lambda>c. c \<noteq> CHR ''.'') s;
          fp = drop (Suc (length ip)) s
      in if ip @ fp = [] then None
         else
           (case (digits_value 0 ip, digits_value 0 fp) of
              (Some a, Some b) \<Rightarrow> Some (of_nat a + of_nat b / of_nat (10 ^ length fp))
            | _ \<Rightarrow> None))"

text \<open>
  \<open>canonical_uuid\<close> reads 32 hexadecimal digits, with hyphens anywhere between them, as
  the string of the digits in lower case. \<^verbatim>\<open>uuid.UUID\<close> accepts more (braces, a
  \<^verbatim>\<open>urn:uuid:\<close> prefix); it only stands for \<open>pu\<close> in the examples.
\<close>

definition is_hex :: "char \<Rightarrow> bool" where
  "is_hex c =
     (let n = (of_char c :: nat)
      in (48 \<le> n \<and> n \<le> 57) \<or> (65 \<le> n \<and> n \<le> 70) \<or> (97 \<le> n \<and> n \<le> 102))"

definition canonical_uuid :: "string \<Rightarrow> string option" where
  "canonical_uuid s =
     (let h = filter (\<lambda>c. c \<noteq> CHR ''-'') s
      in if length h = 32 \<and> list_all is_hex h then Some (lower h) else None)"

subsection \<open>Notions the properties are stated with\<close>

text \<open>The accepted source strings of a resolver: the keys of its dictionary.\<close>

definition accepted :: "(string \<times> 'a) list \<Rightarrow> string option set" where
  "accepted mapping = Some ` fst ` set mapping"

text \<open>
  The identifier a candidate field holds: none when the column is missing, its value is
  \<^verbatim>\<open>None\<close> or empty, or the text is no UUID.
\<close>

definition field_uuid :: "(string \<Rightarrow> 'u option) \<Rightarrow> row \<Rightarrow> string \<Rightarrow> 'u option" where
  "field_uuid pu row field =
     (case row_get row field of
        None \<Rightarrow> None
      | Some s \<Rightarrow> if s = [] then None else pu s)"

text \<open>The number a raw value denotes: none for \<^verbatim>\<open>None\<close> and for a text that is no number.\<close>

definition parsed :: "(string \<Rightarrow> 'f option) \<Rightarrow> string option \<Rightarrow> 'f option" where
  "parsed pf v = (case v of None \<Rightarrow> None | Some s \<Rightarrow> pf (replace_comma s))"

text \<open>A coordinate has a non-empty third component.\<close>

definition has_elevation :: "string option list \<Rightarrow> bool" where
  "has_elevation coord = (2 < length coord \<and> truthy (coord ! 2))"

text \<open>A raw component is a non-empty text that is a number.\<close>

definition numeric :: "(string \<Rightarrow> 'f option) \<Rightarrow> string option \<Rightarrow> bool" where
  "numeric pf v = (truthy v \<and> parsed pf v \<noteq> None)"

text \<open>Every position of a geometry has \<open>n\<close> components.\<close>

fun has_dimension :: "nat \<Rightarrow> 'f geometry \<Rightarrow> bool" where
  "has_dimension n (Point p) = (length p = n)"
| "has_dimension n (LineString ps) = list_all (\<lambda>p. length p = n) ps"

text \<open>
  The positions of two components of the coordinates of a line, and of the first
  coordinate of a point, each read as the number its text denotes.
\<close>

definition flat_geometry :: "(string \<Rightarrow> 'f option) \<Rightarrow> string option list list \<Rightarrow> bool \<Rightarrow> 'f geometry" where
  "flat_geometry pf cs is_line =
     (if is_line
      then LineString (map (\<lambda>coord. [the (parsed pf (coord ! 1)), the (parsed pf (coord ! 0))]) cs)
      else Point [the (parsed pf (hd cs ! 1)), the (parsed pf (hd cs ! 0))])"

text \<open>The elements of a list in the order of their first occurrence.\<close>

fun first_occurrences :: "'a list \<Rightarrow> 'a list" where
  "first_occurrences [] = []"
| "first_occurrences (x # xs) = x # removeAll x (first_occurrences xs)"

text \<open>The name of a CRS.\<close>

definition crs_name :: "Crs \<Rightarrow> string" where
  "crs_name c = name (properties c)"

text \<open>
  The category of a row is neither that of the line and guy segments nor that of the
  overhead structures.
\<close>

definition unknown_record_type :: "row \<Rightarrow> bool" where
  "unknown_record_type row =
     (row_get row ''Tabell ID'' \<noteq> Some ''261'' \<and> row_get row ''Tabell ID'' \<noteq> Some ''109'')"

subsection \<open>Rows of the test suite\<close>

text \<open>The identifier of the rows of \<^verbatim>\<open>tests/test_csv_to_geojson.py\<close>, and what \<open>canonical_uuid\<close> reads it as.\<close>

definition test_uuid :: string where
  "test_uuid = ''550e8400-e29b-41d4-a716-446655440000''"

definition test_uuid_value :: string where
  "test_uuid_value = ''550e8400e29b41d4a716446655440000''"

text \<open>The two rows of \<^verbatim>\<open>test_csv_multiple_crs\<close>: a mast with elevation, and one without.\<close>

definition mast_row_z :: row where
  "mast_row_z = map_of
     [(''Tabell ID'', Some ''109''),
      (''OverheadStructure_uuid'', Some test_uuid),
      (''Masttype (NRL)'', Some (''Mast, h'' @ oslash @ ''yspent'')),
      (''Status (NRL)'', Some ''Eksisterende''),
      (''x'', Some ''100''),
      (''y'', Some ''200''),
      (''z'', Some ''10'')]"

definition mast_row_flat :: row where
  "mast_row_flat = map_of
     [(''Tabell ID'', Some ''109''),
      (''OverheadStructure_uuid'', Some test_uuid),
      (''Masttype (NRL)'', Some (''Mast, h'' @ oslash @ ''yspent'')),
      (''Status (NRL)'', Some ''Eksisterende''),
      (''x'', Some ''100''),
      (''y'', Some ''200''),
      (''z'', Some [])]"

text \<open>
  The row of \<^verbatim>\<open>test_csv_with_anleggsbredde\<close>, an AC line segment, with the two columns
  of lighting and marking added, each with an accepted text.
\<close>

definition ac_row :: row where
  "ac_row = map_of
     [(''Tabell ID'', Some ''261''),
      (''Betegnelse'', Some ''Ledning''),
      (''ACLineSegmentSpan_uuid'', Some test_uuid),
      (''Status (NRL)'', Some ''Eksisterende''),
      (''Luftspenntype (NRL)'', Some (''Ledning, h'' @ oslash @ ''yspent'')),
      (''Anleggsbredde meter (NRL)'', Some ''5.5''),
      (''Luftfartshinderlyssetting(NRL)'', Some ''Lyssatt''),
      (''Luftfartshindermerking(NRL)'', Some ''Fargemerking''),
      (''Luftfartshindermerking (NRL)'', Some ''Fargemerking''),
      (''x1'', Some ''100''),
      (''y1'', Some ''200''),
      (''z1'', Some ''10''),
      (''x2'', Some ''300''),
      (''y2'', Some ''400''),
      (''z2'', Some ''20'')]"

text \<open>The row of \<^verbatim>\<open>test_csv_guy_segment_missing_uuid\<close>, with an identifier.\<close>

definition guy_row :: row where
  "guy_row = map_of
     [(''Tabell ID'', Some ''261''),
      (''Betegnelse'', Some ''Bardunline''),
      (''Guy_uuid'', Some test_uuid),
      (''Status (NRL)'', Some ''Eksisterende''),
      (''x1'', Some ''100''),
      (''y1'', Some ''200''),
      (''z1'', Some ''10''),
      (''x2'', Some ''300''),
      (''y2'', Some ''400''),
      (''z2'', Some ''20'')]"

text \<open>The row of \<^verbatim>\<open>test_no_tabell_id\<close>, and the row of \<^verbatim>\<open>test_csv_missing_status\<close>.\<close>

definition no_table_row :: row where
  "no_table_row = map_of
     [(''OverheadStructure_uuid'', Some test_uuid),
      (''Masttype (NRL)'', Some (''Mast, h'' @ oslash @ ''yspent'')),
      (''Status (NRL)'', Some ''Eksisterende''),
      (''x'', Some ''100''),
      (''y'', Some ''200''),
      (''z'', Some ''10'')]"

definition no_status_row :: row where
  "no_status_row = map_of
     [(''Tabell ID'', Some ''109''),
      (''OverheadStructure_uuid'', Some test_uuid),
      (''Masttype (NRL)'', Some (''Mast, h'' @ oslash @ ''yspent'')),
      (''Status (NRL)'', Some []),
      (''x'', Some ''100''),
      (''y'', Some ''200''),
      (''z'', Some ''10'')]"

text \<open>The features that the rows above convert to.\<close>

definition test_mast :: "(string, rat) NrlMast" where
  "test_mast =
     \<lparr>komponentident = test_uuid_value,
      status = eksisterende,
      verifisert_rapporteringsnoyaktighet = ''0'',
      feature_type = ''NrlMast'',
      mast_type = hogspentmast,
      luftfartshinderlyssetting = None,
      luftfartshindermerking = None,
      hoydereferanse = None,
      vertikal_avstand = None\<rparr>"

definition mast_feature_z :: "(string, rat) Feature" where
  "mast_feature_z = \<lparr>geometry = Point [200, 100, 10], feature_properties = Mast test_mast\<rparr>"

definition mast_feature_flat :: "(string, rat) Feature" where
  "mast_feature_flat = \<lparr>geometry = Point [200, 100], feature_properties = Mast test_mast\<rparr>"

definition ac_feature :: "(string, rat) Feature" where
  "ac_feature =
     \<lparr>geometry = LineString [[200, 100, 10], [400, 300, 20]],
      feature_properties = Luftspenn
        \<lparr>luftspenn_type = hogspent,
         span_komponentident = test_uuid_value,
         nrl_mast = Some [],
         span_status = eksisterende,
         span_verifisert_rapporteringsnoyaktighet = ''0'',
         span_feature_type = ''NrlLuftspenn'',
         referanse = None,
         span_luftfartshinderlyssetting = None,
         span_luftfartshindermerking = None,
         anleggsbredde = Some (11 / 2)\<rparr>\<rparr>"

definition guy_feature :: "(string, rat) Feature" where
  "guy_feature =
     \<lparr>geometry = LineString [[200, 100, 10], [400, 300, 20]],
      feature_properties = Luftspenn
        \<lparr>luftspenn_type = bardun,
         span_komponentident = test_uuid_value,
         nrl_mast = None,
         span_status = eksisterende,
         span_verifisert_rapporteringsnoyaktighet = ''0'',
         span_feature_type = ''NrlLuftspenn'',
         referanse = None,
         span_luftfartshinderlyssetting = None,
         span_luftfartshindermerking = None,
         anleggsbredde = None\<rparr>\<rparr>"

section \<open>Properties\<close>

subsection \<open>Sequencing and dictionaries\<close>

lemma rbind_Inl [simp]: "rbind (Inl e) k = Inl e"
  by (simp add: rbind_def)

lemma rbind_Inr [simp]: "rbind (Inr x) k = k x"
  by (simp add: rbind_def)

lemma rbind_eq_Inr: "(rbind m k = Inr y) = (\<exists>x. m = Inr x \<and> k x = Inr y)"
  by (cases m) simp_all

lemma dict_get_None: "v \<notin> accepted mapping \<Longrightarrow> dict_get mapping v = None"
  by (cases v) (auto simp: accepted_def dict_get_def map_of_eq_None_iff)

lemma dict_get_Some: "v \<in> accepted mapping \<Longrightarrow> \<exists>r. dict_get mapping v = Some r"
proof -
  assume "v \<in> accepted mapping"
  then obtain s where s: "v = Some s" "s \<in> fst ` set mapping"
    by (auto simp: accepted_def)
  then have "map_of mapping s \<noteq> None"
    by (simp add: map_of_eq_None_iff)
  with s show ?thesis
    by (auto simp: dict_get_def)
qed

subsection \<open>The enumeration resolvers\<close>

lemma luftspenn_type_unknown:
  "v \<notin> accepted luftspenn_type_mapping
     \<Longrightarrow> map_luftspenn_type v = Inl (ValueError (UnknownLuftspenntype v))"
  by (simp add: map_luftspenn_type_def dict_get_None)

lemma luftspenn_type_known:
  "v \<in> accepted luftspenn_type_mapping \<Longrightarrow> \<exists>r. map_luftspenn_type v = Inr r"
  using dict_get_Some [of v luftspenn_type_mapping]
  by (auto simp: map_luftspenn_type_def)

lemma mast_type_unknown:
  "v \<notin> accepted mast_type_mapping
     \<Longrightarrow> map_mast_type v = Inl (ValueError (UnknownMasttype v))"
  by (simp add: map_mast_type_def dict_get_None)

lemma mast_type_known:
  "v \<in> accepted mast_type_mapping \<Longrightarrow> \<exists>r. map_mast_type v = Inr r"
  using dict_get_Some [of v mast_type_mapping]
  by (auto simp: map_mast_type_def)

lemma feature_status_unknown:
  "v \<notin> accepted feature_status_mapping
     \<Longrightarrow> map_feature_status v = Inl (ValueError (UnknownStatus v))"
  by (simp add: map_feature_status_def dict_get_None)

lemma feature_status_known:
  "v \<in> accepted feature_status_mapping \<Longrightarrow> \<exists>r. map_feature_status v = Inr r"
  using dict_get_Some [of v feature_status_mapping]
  by (auto simp: map_feature_status_def)

lemma not_truthy_cases: "\<not> truthy v \<Longrightarrow> v = None \<or> v = Some []"
  by (cases v) (simp_all add: truthy_def)

lemma not_truthy_unaccepted:
  assumes "\<not> truthy v"
  shows "v \<notin> accepted luftspenn_type_mapping"
    and "v \<notin> accepted mast_type_mapping"
    and "v \<notin> accepted feature_status_mapping"
  using not_truthy_cases [OF assms]
  by (auto simp: accepted_def luftspenn_type_mapping_def mast_type_mapping_def
      feature_status_mapping_def)

lemma lighting_kind_unknown:
  "v \<notin> accepted lighting_kind_mapping \<Longrightarrow> map_lighting_kind v = None"
  by (simp add: map_lighting_kind_def dict_get_None)

lemma marking_kind_unknown:
  "v \<notin> accepted marking_kind_mapping \<Longrightarrow> map_marking_kind v = None"
  by (simp add: map_marking_kind_def dict_get_None)

text \<open>
  C6. A required resolver (span type, mast type, status) raises the ValueError that names
  its enumeration and carries the value, on every value that is no key of its dictionary;
  \<^verbatim>\<open>None\<close> and the empty string are such values. An optional resolver (lighting,
  marking) returns \<^verbatim>\<open>None\<close> on \<^verbatim>\<open>None\<close>, on the empty string and on every text that
  is no key of its dictionary, and never raises. On a key of its dictionary a required
  resolver returns.
\<close>

theorem enum_resolution:
  "(\<forall>v. v \<notin> accepted luftspenn_type_mapping
        \<longrightarrow> map_luftspenn_type v = Inl (ValueError (UnknownLuftspenntype v)))
   \<and> (\<forall>v. v \<notin> accepted mast_type_mapping
        \<longrightarrow> map_mast_type v = Inl (ValueError (UnknownMasttype v)))
   \<and> (\<forall>v. v \<notin> accepted feature_status_mapping
        \<longrightarrow> map_feature_status v = Inl (ValueError (UnknownStatus v)))
   \<and> (\<forall>v. \<not> truthy v \<longrightarrow>
          map_luftspenn_type v = Inl (ValueError (UnknownLuftspenntype v))
        \<and> map_mast_type v = Inl (ValueError (UnknownMasttype v))
        \<and> map_feature_status v = Inl (ValueError (UnknownStatus v))
        \<and> map_lighting_kind v = None
        \<and> map_marking_kind v = None)
   \<and> (\<forall>v. v \<notin> accepted lighting_kind_mapping \<longrightarrow> map_lighting_kind v = None)
   \<and> (\<forall>v. v \<notin> accepted marking_kind_mapping \<longrightarrow> map_marking_kind v = None)
   \<and> (\<forall>v. v \<in> accepted luftspenn_type_mapping \<longrightarrow> (\<exists>r. map_luftspenn_type v = Inr r))
   \<and> (\<forall>v. v \<in> accepted mast_type_mapping \<longrightarrow> (\<exists>r. map_mast_type v = Inr r))
   \<and> (\<forall>v. v \<in> accepted feature_status_mapping \<longrightarrow> (\<exists>r. map_feature_status v = Inr r))"
proof (intro conjI allI impI)
  fix v
  assume "\<not> truthy v"
  then show "map_luftspenn_type v = Inl (ValueError (UnknownLuftspenntype v))"
    by (simp add: luftspenn_type_unknown not_truthy_unaccepted)
next
  fix v
  assume "\<not> truthy v"
  then show "map_mast_type v = Inl (ValueError (UnknownMasttype v))"
    by (simp add: mast_type_unknown not_truthy_unaccepted)
next
  fix v
  assume "\<not> truthy v"
  then show "map_feature_status v = Inl (ValueError (UnknownStatus v))"
    by (simp add: feature_status_unknown not_truthy_unaccepted)
next
  fix v
  assume "\<not> truthy v"
  then show "map_lighting_kind v = None"
    by (simp add: map_lighting_kind_def)
next
  fix v
  assume "\<not> truthy v"
  then show "map_marking_kind v = None"
    by (simp add: map_marking_kind_def)
qed (simp_all add: luftspenn_type_unknown mast_type_unknown feature_status_unknown
      lighting_kind_unknown marking_kind_unknown luftspenn_type_known mast_type_known
      feature_status_known)

theorem enum_resolution_witness:
  "Some ''InvalidStatus'' \<notin> accepted feature_status_mapping
   \<and> map_feature_status (Some ''InvalidStatus'') = Inl (ValueError (UnknownStatus (Some ''InvalidStatus'')))
   \<and> \<not> truthy (Some [])
   \<and> map_feature_status (Some []) = Inl (ValueError (UnknownStatus (Some [])))
   \<and> map_lighting_kind (Some []) = None
   \<and> \<not> truthy None
   \<and> map_feature_status None = Inl (ValueError (UnknownStatus None))
   \<and> Some ''InvalidType'' \<notin> accepted mast_type_mapping
   \<and> map_mast_type (Some ''InvalidType'') = Inl (ValueError (UnknownMasttype (Some ''InvalidType'')))
   \<and> Some ''InvalidType'' \<notin> accepted luftspenn_type_mapping
   \<and> map_luftspenn_type (Some ''InvalidType'') = Inl (ValueError (UnknownLuftspenntype (Some ''InvalidType'')))
   \<and> Some ''Blinking'' \<notin> accepted lighting_kind_mapping
   \<and> map_lighting_kind (Some ''Blinking'') = None
   \<and> Some ''Stripes'' \<notin> accepted marking_kind_mapping
   \<and> map_marking_kind (Some ''Stripes'') = None
   \<and> Some ''Eksisterende'' \<in> accepted feature_status_mapping
   \<and> (\<exists>r. map_feature_status (Some ''Eksisterende'') = Inr r)
   \<and> Some (''Mast, h'' @ oslash @ ''yspent'') \<in> accepted mast_type_mapping
   \<and> (\<exists>r. map_mast_type (Some (''Mast, h'' @ oslash @ ''yspent'')) = Inr r)
   \<and> Some ''Ledning, lavspent'' \<in> accepted luftspenn_type_mapping
   \<and> (\<exists>r. map_luftspenn_type (Some ''Ledning, lavspent'') = Inr r)"
proof -
  have a: "Some ''InvalidStatus'' \<notin> accepted feature_status_mapping"
    by (simp add: accepted_def feature_status_mapping_def)
  have b: "Some ''InvalidType'' \<notin> accepted mast_type_mapping"
    by (simp add: accepted_def mast_type_mapping_def)
  have c: "Some ''InvalidType'' \<notin> accepted luftspenn_type_mapping"
    by (simp add: accepted_def luftspenn_type_mapping_def)
  have d: "Some ''Blinking'' \<notin> accepted lighting_kind_mapping"
    by (simp add: accepted_def lighting_kind_mapping_def)
  have e: "Some ''Stripes'' \<notin> accepted marking_kind_mapping"
    by (simp add: accepted_def marking_kind_mapping_def)
  have t: "\<not> truthy (Some [])" "\<not> truthy None"
    by (simp_all add: truthy_def)
  have f: "Some ''Eksisterende'' \<in> accepted feature_status_mapping"
    by (simp add: accepted_def feature_status_mapping_def)
  have g: "Some (''Mast, h'' @ oslash @ ''yspent'') \<in> accepted mast_type_mapping"
    by (simp add: accepted_def mast_type_mapping_def)
  have h: "Some ''Ledning, lavspent'' \<in> accepted luftspenn_type_mapping"
    by (simp add: accepted_def luftspenn_type_mapping_def)
  note r = enum_resolution
  from r a have 1: "map_feature_status (Some ''InvalidStatus'') = Inl (ValueError (UnknownStatus (Some ''InvalidStatus'')))"
    by blast
  from r t(1) have 2: "map_feature_status (Some []) = Inl (ValueError (UnknownStatus (Some [])))"
    "map_lighting_kind (Some []) = None"
    by blast+
  from r t(2) have 3: "map_feature_status None = Inl (ValueError (UnknownStatus None))"
    by blast
  from r b have 4: "map_mast_type (Some ''InvalidType'') = Inl (ValueError (UnknownMasttype (Some ''InvalidType'')))"
    by blast
  from r c have 5: "map_luftspenn_type (Some ''InvalidType'') = Inl (ValueError (UnknownLuftspenntype (Some ''InvalidType'')))"
    by blast
  from r d have 6: "map_lighting_kind (Some ''Blinking'') = None"
    by blast
  from r e have 7: "map_marking_kind (Some ''Stripes'') = None"
    by blast
  from r f have 8: "\<exists>r. map_feature_status (Some ''Eksisterende'') = Inr r"
    by blast
  from r g have 9: "\<exists>r. map_mast_type (Some (''Mast, h'' @ oslash @ ''yspent'')) = Inr r"
    by blast
  from r h have 10: "\<exists>r. map_luftspenn_type (Some ''Ledning, lavspent'') = Inr r"
    by blast
  show ?thesis
    using a b c d e t f g h 1 2 3 4 5 6 7 8 9 10 by (intro conjI)
qed

subsection \<open>Identifier resolution\<close>

lemma get_uuid_loop_Cons:
  "get_uuid_loop pu row (f # fs) =
     (case field_uuid pu row f of Some u \<Rightarrow> Some u | None \<Rightarrow> get_uuid_loop pu row fs)"
  by (simp add: field_uuid_def truthy_def Let_def split: option.splits)

lemma get_uuid_loop_Some:
  "(get_uuid_loop pu row names = Some u) =
     (\<exists>i<length names. field_uuid pu row (names ! i) = Some u
        \<and> (\<forall>j<i. field_uuid pu row (names ! j) = None))"
proof (induction names)
  case Nil
  show ?case by simp
next
  case (Cons f fs)
  show ?case
  proof (cases "field_uuid pu row f")
    case None
    have "(\<exists>i<length (f # fs). field_uuid pu row ((f # fs) ! i) = Some u
            \<and> (\<forall>j<i. field_uuid pu row ((f # fs) ! j) = None))
          = (\<exists>i<length fs. field_uuid pu row (fs ! i) = Some u
            \<and> (\<forall>j<i. field_uuid pu row (fs ! j) = None))" (is "?L = ?R")
    proof
      assume ?L
      then obtain i where i: "i < length (f # fs)" "field_uuid pu row ((f # fs) ! i) = Some u"
        "\<forall>j<i. field_uuid pu row ((f # fs) ! j) = None" by blast
      with None obtain k where k: "i = Suc k" by (cases i) auto
      from i k have "k < length fs" "field_uuid pu row (fs ! k) = Some u" by auto
      moreover have "\<forall>j<k. field_uuid pu row (fs ! j) = None"
      proof (intro allI impI)
        fix j assume "j < k"
        then have "Suc j < i" using k by simp
        with i(3) have "field_uuid pu row ((f # fs) ! Suc j) = None" by blast
        then show "field_uuid pu row (fs ! j) = None" by simp
      qed
      ultimately show ?R by blast
    next
      assume ?R
      then obtain k where k: "k < length fs" "field_uuid pu row (fs ! k) = Some u"
        "\<forall>j<k. field_uuid pu row (fs ! j) = None" by blast
      have "\<forall>j<Suc k. field_uuid pu row ((f # fs) ! j) = None"
      proof (intro allI impI)
        fix j assume "j < Suc k"
        then show "field_uuid pu row ((f # fs) ! j) = None"
          using None k(3) by (cases j) auto
      qed
      with k(1,2) show ?L
        by (intro exI [of _ "Suc k"]) simp
    qed
    with None Cons.IH show ?thesis
      by (simp only: get_uuid_loop_Cons option.simps)
  next
    case (Some w)
    have "(\<exists>i<length (f # fs). field_uuid pu row ((f # fs) ! i) = Some u
            \<and> (\<forall>j<i. field_uuid pu row ((f # fs) ! j) = None)) = (w = u)" (is "?L = _")
    proof
      assume ?L
      then obtain i where i: "i < length (f # fs)" "field_uuid pu row ((f # fs) ! i) = Some u"
        "\<forall>j<i. field_uuid pu row ((f # fs) ! j) = None" by blast
      have "i = 0"
      proof (rule ccontr)
        assume "i \<noteq> 0"
        then have "0 < i" by simp
        with i(3) have "field_uuid pu row ((f # fs) ! 0) = None" by blast
        with Some show False by simp
      qed
      with i(2) Some show "w = u" by simp
    next
      assume "w = u"
      with Some show ?L by (intro exI [of _ 0]) simp
    qed
    with Some show ?thesis
      by (simp only: get_uuid_loop_Cons option.simps)
  qed
qed

lemma get_uuid_loop_None:
  "(get_uuid_loop pu row names = None) = (\<forall>f\<in>set names. field_uuid pu row f = None)"
  by (induction names)
    (auto simp: get_uuid_loop_Cons simp del: get_uuid_loop.simps(2) split: option.splits)

lemma get_uuid_Inr:
  "(get_uuid pu row names = Inr u) = (get_uuid_loop pu row names = Some u)"
  by (simp add: get_uuid_def split: option.splits)

lemma get_uuid_Inl:
  "(get_uuid pu row names = Inl e) =
     (get_uuid_loop pu row names = None \<and> e = ValueError (NoValidUUID names))"
  by (auto simp: get_uuid_def split: option.splits)

text \<open>
  C7. \<^verbatim>\<open>get_uuid\<close> returns \<open>u\<close> exactly when some candidate field holds the
  identifier \<open>u\<close> and no candidate before it, in the given order, holds an identifier
  (missing, \<^verbatim>\<open>None\<close>, empty and malformed values are passed over). It raises exactly
  when no candidate holds an identifier, and the ValueError then carries the whole list
  of candidates. For two different columns, the first with a malformed text and the second
  with a UUID, the result is the identifier of the second.
\<close>

theorem get_uuid_first_valid:
  "((get_uuid pu row names = Inr u) =
      (\<exists>i<length names. field_uuid pu row (names ! i) = Some u
         \<and> (\<forall>j<i. field_uuid pu row (names ! j) = None)))
   \<and> ((get_uuid pu row names = Inl e) =
      ((\<forall>f\<in>set names. field_uuid pu row f = None) \<and> e = ValueError (NoValidUUID names)))
   \<and> (a \<noteq> b \<and> pu invalid = None \<and> valid \<noteq> [] \<and> pu valid = Some u
        \<longrightarrow> get_uuid pu [a \<mapsto> Some invalid, b \<mapsto> Some valid] [a, b] = Inr u)"
proof (intro conjI impI)
  show "(get_uuid pu row names = Inr u) =
      (\<exists>i<length names. field_uuid pu row (names ! i) = Some u
         \<and> (\<forall>j<i. field_uuid pu row (names ! j) = None))"
    by (simp only: get_uuid_Inr get_uuid_loop_Some)
  show "(get_uuid pu row names = Inl e) =
      ((\<forall>f\<in>set names. field_uuid pu row f = None) \<and> e = ValueError (NoValidUUID names))"
    by (simp only: get_uuid_Inl get_uuid_loop_None)
  assume "a \<noteq> b \<and> pu invalid = None \<and> valid \<noteq> [] \<and> pu valid = Some u"
  then show "get_uuid pu [a \<mapsto> Some invalid, b \<mapsto> Some valid] [a, b] = Inr u"
    by (simp add: get_uuid_def get_uuid_loop_Cons field_uuid_def row_get_def
        del: get_uuid_loop.simps(2))
qed

theorem get_uuid_first_valid_witness:
  "get_uuid canonical_uuid
     [''field1'' \<mapsto> Some ''invalid'', ''field2'' \<mapsto> Some ''550e8400-e29b-41d4-a716-446655440000'']
     [''field1'', ''field2''] = Inr ''550e8400e29b41d4a716446655440000''
   \<and> get_uuid canonical_uuid
     [''field1'' \<mapsto> Some ''invalid'', ''field2'' \<mapsto> Some ''also-invalid'']
     [''field1'', ''field2''] = Inl (ValueError (NoValidUUID [''field1'', ''field2'']))
   \<and> get_uuid canonical_uuid
     [''field1'' \<mapsto> Some [], ''field3'' \<mapsto> None, ''field4'' \<mapsto> Some ''550e8400-e29b-41d4-a716-446655440000'']
     [''field1'', ''field2'', ''field3'', ''field4''] = Inr ''550e8400e29b41d4a716446655440000''"
proof -
  let ?v = "''550e8400-e29b-41d4-a716-446655440000''"
  let ?u = "''550e8400e29b41d4a716446655440000''"
  have inv: "canonical_uuid ''invalid'' = None" "canonical_uuid ''also-invalid'' = None"
    by (simp_all add: canonical_uuid_def is_hex_def)
  have val: "canonical_uuid ?v = Some ?u"
    by (simp add: canonical_uuid_def is_hex_def lower_def lower_char_def)
  have ne: "''field1'' \<noteq> ''field2''" "?v \<noteq> []"
    by simp_all
  have 1: "get_uuid canonical_uuid [''field1'' \<mapsto> Some ''invalid'', ''field2'' \<mapsto> Some ?v]
     [''field1'', ''field2''] = Inr ?u"
    using get_uuid_first_valid [of canonical_uuid _ _ ?u _ "''field1''" "''field2''" "''invalid''" ?v]
      inv val ne by blast
  let ?row2 = "[''field1'' \<mapsto> Some ''invalid'', ''field2'' \<mapsto> Some ''also-invalid'']"
  have "\<forall>f\<in>set [''field1'', ''field2'']. field_uuid canonical_uuid ?row2 f = None"
    by (simp add: field_uuid_def row_get_def inv)
  then have 2: "get_uuid canonical_uuid ?row2 [''field1'', ''field2'']
       = Inl (ValueError (NoValidUUID [''field1'', ''field2'']))"
    using get_uuid_first_valid [of canonical_uuid ?row2 "[''field1'', ''field2'']" _
        "ValueError (NoValidUUID [''field1'', ''field2''])"]
    by blast
  let ?row3 = "[''field1'' \<mapsto> Some [], ''field3'' \<mapsto> None, ''field4'' \<mapsto> Some ?v]"
  let ?n3 = "[''field1'', ''field2'', ''field3'', ''field4'']"
  have "field_uuid canonical_uuid ?row3 (?n3 ! 3) = Some ?u
     \<and> (\<forall>j<3. field_uuid canonical_uuid ?row3 (?n3 ! j) = None)"
    by (simp add: field_uuid_def row_get_def val less_Suc_eq numeral_3_eq_3)
  then have "\<exists>i<length ?n3. field_uuid canonical_uuid ?row3 (?n3 ! i) = Some ?u
     \<and> (\<forall>j<i. field_uuid canonical_uuid ?row3 (?n3 ! j) = None)"
    by (intro exI [of _ 3]) simp
  then have 3: "get_uuid canonical_uuid ?row3 ?n3 = Inr ?u"
    using get_uuid_first_valid [of canonical_uuid ?row3 ?n3 ?u] by blast
  from 1 2 3 show ?thesis by (intro conjI)
qed

subsection \<open>Value coercion\<close>

lemma parse_float_Inr: "(parse_float pf v field_name = Inr x) = (parsed pf v = Some x)"
  by (simp add: parse_float_def parsed_def split: option.splits)

lemma replace_comma_no_comma: "CHR '','' \<notin> set (replace_comma s)"
  by (auto simp: replace_comma_def)

lemma replace_comma_id: "CHR '','' \<notin> set s \<Longrightarrow> replace_comma s = s"
  by (induction s) (auto simp: replace_comma_def)

text \<open>
  C8. \<^verbatim>\<open>parse_float\<close> replaces every comma by a dot and hands the text to
  \<^verbatim>\<open>float\<close>: the normalised text has no comma, a text without a comma is unchanged,
  and the result is the number of the normalised text. So two texts with the same
  normalised form parse alike, and \<^verbatim>\<open>"123,45"\<close> and \<^verbatim>\<open>"123.45"\<close> both give the number
  of \<^verbatim>\<open>"123.45"\<close>. On \<^verbatim>\<open>None\<close>, and on a text whose normalised form is no number, it
  raises a ValueError that carries the name of the field.
\<close>

theorem parse_float_separators:
  "CHR '','' \<notin> set (replace_comma s)
   \<and> (CHR '','' \<notin> set s \<longrightarrow> replace_comma s = s)
   \<and> (pf (replace_comma s) = Some x \<longrightarrow> parse_float pf (Some s) field_name = Inr x)
   \<and> (replace_comma s = replace_comma t \<longrightarrow>
        (parse_float pf (Some s) field_name = Inr x) = (parse_float pf (Some t) field_name = Inr x))
   \<and> (pf ''123.45'' = Some x \<longrightarrow>
        parse_float pf (Some ''123,45'') field_name = Inr x
      \<and> parse_float pf (Some ''123.45'') field_name = Inr x)
   \<and> parse_float pf None field_name = Inl (ValueError (Missing field_name))
   \<and> (pf (replace_comma s) = None \<longrightarrow>
        parse_float pf (Some s) field_name = Inl (ValueError (NotAValidNumber field_name s)))"
proof (intro conjI impI)
  show "CHR '','' \<notin> set (replace_comma s)"
    by (rule replace_comma_no_comma)
  show "replace_comma s = s" if "CHR '','' \<notin> set s"
    using that by (rule replace_comma_id)
  show "parse_float pf (Some s) field_name = Inr x" if "pf (replace_comma s) = Some x"
    using that by (simp add: parse_float_def)
  show "(parse_float pf (Some s) field_name = Inr x) = (parse_float pf (Some t) field_name = Inr x)"
    if "replace_comma s = replace_comma t"
    using that by (simp add: parse_float_Inr parsed_def)
  show "parse_float pf (Some ''123,45'') field_name = Inr x" if "pf ''123.45'' = Some x"
    using that by (simp add: parse_float_def replace_comma_def)
  show "parse_float pf (Some ''123.45'') field_name = Inr x" if "pf ''123.45'' = Some x"
    using that by (simp add: parse_float_def replace_comma_def)
  show "parse_float pf None field_name = Inl (ValueError (Missing field_name))"
    by (simp add: parse_float_def)
  show "parse_float pf (Some s) field_name = Inl (ValueError (NotAValidNumber field_name s))"
    if "pf (replace_comma s) = None"
    using that by (simp add: parse_float_def)
qed

theorem parse_float_separators_witness:
  "parse_float decimal_float (Some ''123,45'') ''test_field'' = Inr (2469 / 20)
   \<and> parse_float decimal_float (Some ''123.45'') ''test_field'' = Inr (2469 / 20)
   \<and> parse_float decimal_float (Some ''not_a_number'') ''test_field''
       = Inl (ValueError (NotAValidNumber ''test_field'' ''not_a_number''))
   \<and> parse_float decimal_float (Some ''1,5'') ''w'' = Inr (3 / 2)
   \<and> parse_float decimal_float (Some ''7'') ''w'' = Inr 7
   \<and> parse_float decimal_float (Some ''1.5'') ''w'' = Inr (3 / 2)"
proof -
  have v: "decimal_float ''123.45'' = Some (2469 / 20)"
    by (simp add: decimal_float_def digit_of_def)
  have n: "decimal_float (replace_comma ''not_a_number'') = None"
    by (simp add: decimal_float_def digit_of_def replace_comma_def)
  have w: "decimal_float (replace_comma ''1,5'') = Some (3 / 2)"
    by (simp add: decimal_float_def digit_of_def replace_comma_def)
  have c7: "CHR '','' \<notin> set ''7''" "decimal_float ''7'' = Some 7"
    by (simp_all add: decimal_float_def digit_of_def)
  note t = parse_float_separators [where pf = decimal_float]
  have 1: "parse_float decimal_float (Some ''123,45'') ''test_field'' = Inr (2469 / 20)"
    "parse_float decimal_float (Some ''123.45'') ''test_field'' = Inr (2469 / 20)"
    using t [of _ "2469 / 20" "''test_field''"] v by blast+
  have 2: "parse_float decimal_float (Some ''not_a_number'') ''test_field''
       = Inl (ValueError (NotAValidNumber ''test_field'' ''not_a_number''))"
    using t [of "''not_a_number''" _ "''test_field''"] n by blast
  have 3: "parse_float decimal_float (Some ''1,5'') ''w'' = Inr (3 / 2)"
    using t [of "''1,5''" "3 / 2" "''w''"] w by blast
  have "replace_comma ''7'' = ''7''"
    using t [of "''7''"] c7(1) by blast
  with c7(2) have 4: "parse_float decimal_float (Some ''7'') ''w'' = Inr 7"
    using t [of "''7''" 7 "''w''"] by simp
  have "replace_comma ''1,5'' = replace_comma ''1.5''"
    by (simp add: replace_comma_def)
  with 3 have 5: "parse_float decimal_float (Some ''1.5'') ''w'' = Inr (3 / 2)"
    using t [of "''1,5''" "3 / 2" "''w''" "''1.5''"] by blast
  from 1 2 3 4 5 show ?thesis by (intro conjI)
qed

subsection \<open>The geometry and CRS builder\<close>

lemma truthy_iff: "truthy v = (v \<noteq> None \<and> v \<noteq> Some [])"
  by (cases v) (simp_all add: truthy_def)

lemma has_z_all_True: "(has_z_all cs = Inr True) = (\<forall>c\<in>set cs. has_elevation c)"
  by (induction cs) (auto simp: item_def has_elevation_def truthy_iff)

lemma has_z_all_False: "has_z_all cs = Inr False \<Longrightarrow> \<exists>c\<in>set cs. \<not> has_elevation c"
  using has_z_all_True [of cs] by auto

lemma has_z_all_triples:
  "\<forall>c\<in>set cs. 2 < length c \<Longrightarrow> has_z_all cs = Inr (\<forall>c\<in>set cs. has_elevation c)"
  by (induction cs) (auto simp: item_def has_elevation_def truthy_iff)

lemma line_coords_Inr:
  "(line_coords pf cs = Inr ps) =
     ((\<forall>c\<in>set cs. 1 < length c \<and> parsed pf (c ! 0) \<noteq> None \<and> parsed pf (c ! 1) \<noteq> None)
      \<and> ps = map (\<lambda>c. [the (parsed pf (c ! 1)), the (parsed pf (c ! 0))]) cs)"
proof (induction cs arbitrary: ps)
  case Nil
  show ?case by auto
next
  case (Cons c cs)
  show ?case
    by (auto simp: rbind_eq_Inr item_def parse_float_Inr Cons.IH split: if_splits)
qed

lemma line_coords_z_Inr:
  "(line_coords_z pf cs = Inr ps) =
     ((\<forall>c\<in>set cs. 2 < length c \<and> parsed pf (c ! 0) \<noteq> None \<and> parsed pf (c ! 1) \<noteq> None
          \<and> parsed pf (c ! 2) \<noteq> None)
      \<and> ps = map (\<lambda>c. [the (parsed pf (c ! 1)), the (parsed pf (c ! 0)), the (parsed pf (c ! 2))]) cs)"
proof (induction cs arbitrary: ps)
  case Nil
  show ?case by auto
next
  case (Cons c cs)
  show ?case
    by (auto simp: rbind_eq_Inr item_def parse_float_Inr Cons.IH split: if_splits)
qed

lemma parse_coordinates_Inr:
  "(parse_coordinates pf cs = Inr vs) =
     ((\<forall>v\<in>set (filter truthy cs). parsed pf v \<noteq> None)
      \<and> vs = map (\<lambda>v. the (parsed pf v)) (filter truthy cs))"
proof (induction pf cs arbitrary: vs rule: parse_coordinates.induct)
  case (1 pf)
  show ?case by auto
next
  case (2 pf coords)
  then show ?case by (simp add: truthy_def)
next
  case (3 pf c coords)
  then show ?case
    by (cases "pf (replace_comma c)") (auto simp: truthy_def parsed_def rbind_eq_Inr)
qed

lemma except_value_error_Inr [simp]: "(except_value_error m = Inr r) = (m = Inr r)"
  by (auto simp: except_value_error_def split: sum.splits py_error.splits)

lemma point_coords_length: "point_coords pf cs = Inr p \<Longrightarrow> length p = 2"
  by (auto simp: point_coords_def rbind_eq_Inr split: if_splits)

lemma point_coords_z_length: "point_coords_z pf cs = Inr p \<Longrightarrow> length p = 3"
  by (auto simp: point_coords_z_def rbind_eq_Inr split: if_splits)

lemma point_coords_triple:
  "(point_coords pf ([x, y, z] # rest) = Inr p) =
     (numeric pf x \<and> numeric pf y \<and> p = [the (parsed pf y), the (parsed pf x)])"
  by (cases "truthy x"; cases "truthy y")
    (auto simp: point_coords_def rbind_eq_Inr item_def parse_coordinates_Inr numeric_def)

lemma point_coords_z_triple:
  "(point_coords_z pf ([x, y, z] # rest) = Inr p) =
     (numeric pf x \<and> numeric pf y \<and> numeric pf z
      \<and> p = [the (parsed pf y), the (parsed pf x), the (parsed pf z)])"
  by (cases "truthy x"; cases "truthy y"; cases "truthy z")
    (auto simp: point_coords_z_def rbind_eq_Inr item_def parse_coordinates_Inr numeric_def)

lemma create_geometry_Inr:
  "(create_geometry pf cs is_line = Inr (g, c)) =
     (\<exists>has_z. has_z_all cs = Inr has_z \<and> (is_line \<longrightarrow> length cs = 2)
        \<and> c = mk_crs (if has_z then ''EPSG:5972'' else ''EPSG:25832'')
        \<and> (if is_line
            then \<exists>ps. (if has_z then line_coords_z pf cs else line_coords pf cs) = Inr ps
                   \<and> g = LineString ps
            else \<exists>p. (if has_z then point_coords_z pf cs else point_coords pf cs) = Inr p
                   \<and> g = Point p))"
  by (cases "has_z_all cs") (auto simp: create_geometry_def rbind_eq_Inr)


subsection \<open>The feature assemblers and the classifier\<close>

lemma span_coordinates_Inr:
  "(span_coordinates row = Inr cs) =
     (\<exists>x1 y1 x2 y2. row ''x1'' = Some x1 \<and> row ''y1'' = Some y1
        \<and> row ''x2'' = Some x2 \<and> row ''y2'' = Some y2
        \<and> cs = [[x1, y1, row_get_default row ''z1'' []],
                [x2, y2, row_get_default row ''z2'' []]])"
  by (auto simp: span_coordinates_def rbind_eq_Inr row_item_def split: option.splits)

lemma convert_overhead_structure_rows_Inr:
  assumes "convert_overhead_structure_rows pf pu row = Inr (f, c)"
  shows "\<exists>x y m. row ''x'' = Some x \<and> row ''y'' = Some y
           \<and> create_geometry pf [[x, y, row_get_default row ''z'' []]] False = Inr (geometry f, c)
           \<and> feature_properties f = Mast m"
  using assms
  by (auto simp: convert_overhead_structure_rows_def rbind_eq_Inr Let_def row_item_def
      split: option.splits)

lemma convert_guy_segments_rows_Inr:
  assumes "convert_guy_segments_rows pf pu row = Inr (f, c)"
  shows "\<exists>cs l. span_coordinates row = Inr cs
           \<and> create_geometry pf cs True = Inr (geometry f, c)
           \<and> feature_properties f = Luftspenn l \<and> luftspenn_type l = bardun"
  using assms
  by (auto simp: convert_guy_segments_rows_def rbind_eq_Inr Let_def)

lemma convert_ac_linesegments_rows_Inr:
  assumes "convert_ac_linesegments_rows pf pu row = Inr (f, c)"
  shows "\<exists>cs l. span_coordinates row = Inr cs
           \<and> create_geometry pf cs True = Inr (geometry f, c)
           \<and> feature_properties f = Luftspenn l
           \<and> map_luftspenn_type (row_get row ''Luftspenntype (NRL)'') = Inr (luftspenn_type l)"
  using assms
  by (auto simp: convert_ac_linesegments_rows_def rbind_eq_Inr Let_def)

lemma process_row_span_Inr:
  assumes "process_row pf pu row = Inr (f, c)" and "row_get row ''Tabell ID'' = Some ''261''"
  shows "\<exists>cs l. span_coordinates row = Inr cs
           \<and> create_geometry pf cs True = Inr (geometry f, c)
           \<and> feature_properties f = Luftspenn l"
proof -
  from assms obtain b where
    "(if b = Some ''Bardunline'' then convert_guy_segments_rows pf pu row
      else convert_ac_linesegments_rows pf pu row) = Inr (f, c)"
    by (auto simp: process_row_def rbind_eq_Inr)
  then show ?thesis
    using convert_guy_segments_rows_Inr [of pf pu row f c]
      convert_ac_linesegments_rows_Inr [of pf pu row f c]
    by (cases "b = Some ''Bardunline''") auto
qed

lemma process_row_mast_Inr:
  assumes "process_row pf pu row = Inr (f, c)" and "row_get row ''Tabell ID'' = Some ''109''"
  shows "\<exists>x y m. row ''x'' = Some x \<and> row ''y'' = Some y
           \<and> create_geometry pf [[x, y, row_get_default row ''z'' []]] False = Inr (geometry f, c)
           \<and> feature_properties f = Mast m"
  using assms convert_overhead_structure_rows_Inr [of pf pu row f c]
  by (simp add: process_row_def)

lemma process_row_table:
  assumes "process_row pf pu row = Inr (f, c)"
  shows "row_get row ''Tabell ID'' = Some ''261'' \<or> row_get row ''Tabell ID'' = Some ''109''"
  using assms by (auto simp: process_row_def Let_def split: if_splits)

lemma name_mk_crs [simp]: "name (properties (mk_crs n)) = n"
  by (simp add: mk_crs_def)

lemma create_geometry_crs:
  assumes "create_geometry pf cs is_line = Inr (g, c)"
  shows "c = mk_crs (if \<forall>coord\<in>set cs. has_elevation coord then ''EPSG:5972'' else ''EPSG:25832'')"
proof -
  from assms obtain has_z where h: "has_z_all cs = Inr has_z"
    and c: "c = mk_crs (if has_z then ''EPSG:5972'' else ''EPSG:25832'')"
    unfolding create_geometry_Inr by blast
  from h have "has_z = (\<forall>coord\<in>set cs. has_elevation coord)"
    using has_z_all_True [of cs] by (cases has_z) auto
  with c show ?thesis by simp
qed

text \<open>
  C1. Whenever the builder returns, for a point or for a line, the name of the CRS is
  \<^verbatim>\<open>EPSG:5972\<close> if every coordinate it was given has a non-empty third component, and
  \<^verbatim>\<open>EPSG:25832\<close> otherwise. So every row that converts has one of these two names; for a
  mast the name is decided by the column \<^verbatim>\<open>z\<close> alone, for a span by the columns
  \<^verbatim>\<open>z1\<close> and \<^verbatim>\<open>z2\<close> alone.
\<close>

theorem crs_by_elevation:
  "(create_geometry pf cs is_line = Inr (g, c) \<longrightarrow>
      name (properties c)
        = (if \<forall>coord\<in>set cs. has_elevation coord then ''EPSG:5972'' else ''EPSG:25832''))
   \<and> (process_row pf pu row = Inr (f, c') \<longrightarrow>
        name (properties c') = ''EPSG:5972'' \<or> name (properties c') = ''EPSG:25832'')
   \<and> (process_row pf pu row = Inr (f, c') \<and> row_get row ''Tabell ID'' = Some ''109'' \<longrightarrow>
        name (properties c')
          = (if truthy (row_get_default row ''z'' []) then ''EPSG:5972'' else ''EPSG:25832''))
   \<and> (process_row pf pu row = Inr (f, c') \<and> row_get row ''Tabell ID'' = Some ''261'' \<longrightarrow>
        name (properties c')
          = (if truthy (row_get_default row ''z1'' []) \<and> truthy (row_get_default row ''z2'' [])
             then ''EPSG:5972'' else ''EPSG:25832''))"
proof -
  have builder: "name (properties c)
        = (if \<forall>coord\<in>set cs. has_elevation coord then ''EPSG:5972'' else ''EPSG:25832'')"
    if "create_geometry pf cs is_line = Inr (g, c)" for cs is_line g c
    using create_geometry_crs [OF that] by (simp split: if_splits)
  have mast: "name (properties c')
          = (if truthy (row_get_default row ''z'' []) then ''EPSG:5972'' else ''EPSG:25832'')"
    if "process_row pf pu row = Inr (f, c')" "row_get row ''Tabell ID'' = Some ''109''"
  proof -
    from process_row_mast_Inr [OF that] obtain x y where
      "create_geometry pf [[x, y, row_get_default row ''z'' []]] False = Inr (geometry f, c')"
      by blast
    from builder [OF this] show ?thesis
      by (simp add: has_elevation_def)
  qed
  have span: "name (properties c')
          = (if truthy (row_get_default row ''z1'' []) \<and> truthy (row_get_default row ''z2'' [])
             then ''EPSG:5972'' else ''EPSG:25832'')"
    if "process_row pf pu row = Inr (f, c')" "row_get row ''Tabell ID'' = Some ''261''"
  proof -
    from process_row_span_Inr [OF that] obtain cs where
      cs: "span_coordinates row = Inr cs" "create_geometry pf cs True = Inr (geometry f, c')"
      by blast
    from cs(1) obtain x1 y1 x2 y2 where
      "cs = [[x1, y1, row_get_default row ''z1'' []], [x2, y2, row_get_default row ''z2'' []]]"
      unfolding span_coordinates_Inr by blast
    with builder [OF cs(2)] show ?thesis
      by (simp add: has_elevation_def)
  qed
  have any: "name (properties c') = ''EPSG:5972'' \<or> name (properties c') = ''EPSG:25832''"
    if "process_row pf pu row = Inr (f, c')"
    using process_row_table [OF that] mast [OF that] span [OF that]
    by (auto split: if_splits)
  from builder mast span any show ?thesis
    by blast
qed

subsection \<open>The rows of the test suite, converted\<close>

lemma decimal_float_examples:
  "decimal_float ''100'' = Some 100" "decimal_float ''200'' = Some 200"
  "decimal_float ''300'' = Some 300" "decimal_float ''400'' = Some 400"
  "decimal_float ''10'' = Some 10" "decimal_float ''20'' = Some 20"
  "decimal_float ''5.5'' = Some (11 / 2)"
  by (simp_all add: decimal_float_def digit_of_def)

lemma parsed_examples:
  "parsed decimal_float (Some ''100'') = Some 100" "parsed decimal_float (Some ''200'') = Some 200"
  "parsed decimal_float (Some ''300'') = Some 300" "parsed decimal_float (Some ''400'') = Some 400"
  "parsed decimal_float (Some ''10'') = Some 10" "parsed decimal_float (Some ''20'') = Some 20"
  "parsed decimal_float (Some ''5.5'') = Some (11 / 2)"
  by (simp_all add: parsed_def replace_comma_def decimal_float_examples)

lemma canonical_uuid_test: "canonical_uuid test_uuid = Some test_uuid_value"
  by (simp add: canonical_uuid_def is_hex_def lower_def lower_char_def test_uuid_def
      test_uuid_value_def)

lemma point_z_example:
  "create_geometry decimal_float [[Some ''100'', Some ''200'', Some ''10'']] False
     = Inr (Point [200, 100, 10], mk_crs ''EPSG:5972'')"
  by (simp add: create_geometry_def item_def point_coords_z_def point_coords_def
      parse_float_def replace_comma_def decimal_float_examples except_value_error_def)

lemma point_flat_example:
  "create_geometry decimal_float [[Some ''100'', Some ''200'', Some []]] False
     = Inr (Point [200, 100], mk_crs ''EPSG:25832'')"
  by (simp add: create_geometry_def item_def point_coords_z_def point_coords_def
      parse_float_def replace_comma_def decimal_float_examples except_value_error_def)

lemma line_z_example:
  "create_geometry decimal_float
     [[Some ''100'', Some ''200'', Some ''10''], [Some ''300'', Some ''400'', Some ''20'']] True
     = Inr (LineString [[200, 100, 10], [400, 300, 20]], mk_crs ''EPSG:5972'')"
  by (simp add: create_geometry_def item_def point_coords_z_def point_coords_def
      parse_float_def replace_comma_def decimal_float_examples except_value_error_def)

lemma line_mixed_example:
  "create_geometry decimal_float
     [[Some ''100'', Some ''200'', Some ''10''], [Some ''300'', Some ''400'', Some []]] True
     = Inr (LineString [[200, 100], [400, 300]], mk_crs ''EPSG:25832'')"
  by (simp add: create_geometry_def item_def point_coords_z_def point_coords_def
      parse_float_def replace_comma_def decimal_float_examples except_value_error_def)

lemma get_uuid_test:
  "row_get row a = Some test_uuid \<Longrightarrow> get_uuid canonical_uuid row (a # names) = Inr test_uuid_value"
  by (simp add: get_uuid_def truthy_def canonical_uuid_test) (simp add: test_uuid_def)

lemma process_row_mast_z: "process_row decimal_float canonical_uuid mast_row_z = Inr (mast_feature_z, mk_crs ''EPSG:5972'')"
  by (simp add: process_row_def convert_overhead_structure_rows_def mast_row_z_def row_get_def
      row_item_def row_get_default_def get_uuid_test map_mast_type_def map_feature_status_def
      dict_get_def mast_type_mapping_def feature_status_mapping_def map_location_method_def
      map_lighting_kind_def map_marking_kind_def truthy_def hoydereferanse_of_def
      optional_float_def point_z_example mast_feature_z_def test_mast_def)

lemma process_row_mast_flat: "process_row decimal_float canonical_uuid mast_row_flat = Inr (mast_feature_flat, mk_crs ''EPSG:25832'')"
  by (simp add: process_row_def convert_overhead_structure_rows_def mast_row_flat_def row_get_def
      row_item_def row_get_default_def get_uuid_test map_mast_type_def map_feature_status_def
      dict_get_def mast_type_mapping_def feature_status_mapping_def map_location_method_def
      map_lighting_kind_def map_marking_kind_def truthy_def hoydereferanse_of_def
      optional_float_def point_flat_example mast_feature_flat_def test_mast_def)

lemma process_row_ac: "process_row decimal_float canonical_uuid ac_row = Inr (ac_feature, mk_crs ''EPSG:5972'')"
  by (simp add: process_row_def convert_ac_linesegments_rows_def ac_row_def row_get_def
      row_item_def row_get_default_def get_uuid_test map_luftspenn_type_def map_feature_status_def
      dict_get_def luftspenn_type_mapping_def feature_status_mapping_def map_location_method_def
      map_lighting_kind_def map_marking_kind_def lighting_kind_mapping_def marking_kind_mapping_def
      truthy_def span_coordinates_def komponentreferanse_of_def
      optional_float_def line_z_example ac_feature_def parse_float_def replace_comma_def
      decimal_float_examples)

lemma process_row_guy: "process_row decimal_float canonical_uuid guy_row = Inr (guy_feature, mk_crs ''EPSG:5972'')"
  by (simp add: process_row_def convert_guy_segments_rows_def guy_row_def row_get_def
      row_item_def row_get_default_def get_uuid_test map_feature_status_def
      dict_get_def feature_status_mapping_def map_location_method_def
      truthy_def span_coordinates_def komponentreferanse_of_def
      line_z_example guy_feature_def)

lemma process_row_no_table:
  "process_row decimal_float canonical_uuid no_table_row = Inl (ValueError (UnknownTabellID None))"
  by (simp add: process_row_def no_table_row_def row_get_def)

lemma process_row_no_status:
  "process_row decimal_float canonical_uuid no_status_row = Inl (ValueError (UnknownStatus (Some [])))"
  by (simp add: process_row_def convert_overhead_structure_rows_def no_status_row_def row_get_def
      get_uuid_test map_mast_type_def map_feature_status_def
      dict_get_def mast_type_mapping_def feature_status_mapping_def)

theorem crs_by_elevation_witness:
  "create_geometry decimal_float [[Some ''100'', Some ''200'', Some ''10'']] False
     = Inr (Point [200, 100, 10], mk_crs ''EPSG:5972'')
   \<and> has_elevation [Some ''100'', Some ''200'', Some ''10'']
   \<and> create_geometry decimal_float
       [[Some ''100'', Some ''200'', Some ''10''], [Some ''300'', Some ''400'', Some []]] True
     = Inr (LineString [[200, 100], [400, 300]], mk_crs ''EPSG:25832'')
   \<and> \<not> has_elevation [Some ''300'', Some ''400'', Some []]
   \<and> process_row decimal_float canonical_uuid mast_row_flat
     = Inr (mast_feature_flat, mk_crs ''EPSG:25832'')
   \<and> row_get mast_row_flat ''Tabell ID'' = Some ''109''
   \<and> \<not> truthy (row_get_default mast_row_flat ''z'' [])
   \<and> process_row decimal_float canonical_uuid ac_row = Inr (ac_feature, mk_crs ''EPSG:5972'')
   \<and> row_get ac_row ''Tabell ID'' = Some ''261''
   \<and> truthy (row_get_default ac_row ''z1'' []) \<and> truthy (row_get_default ac_row ''z2'' [])
   \<and> process_row decimal_float canonical_uuid guy_row = Inr (guy_feature, mk_crs ''EPSG:5972'')
   \<and> (name (properties (mk_crs ''EPSG:5972'')) = ''EPSG:5972''
        \<or> name (properties (mk_crs ''EPSG:5972'')) = ''EPSG:25832'')"
proof -
  let ?p = "[[Some ''100'', Some ''200'', Some ''10'']]"
  let ?l = "[[Some ''100'', Some ''200'', Some ''10''], [Some ''300'', Some ''400'', Some []]]"
  have t: "row_get mast_row_flat ''Tabell ID'' = Some ''109''"
    "row_get ac_row ''Tabell ID'' = Some ''261''"
    by (simp_all add: row_get_def mast_row_flat_def ac_row_def)
  note builder = crs_by_elevation [THEN conjunct1, rule_format]
  note mast = crs_by_elevation [THEN conjunct2, THEN conjunct2, THEN conjunct1, rule_format]
  note span = crs_by_elevation [THEN conjunct2, THEN conjunct2, THEN conjunct2, rule_format]
  have 1: "has_elevation [Some ''100'', Some ''200'', Some ''10'']"
    using builder [OF point_z_example] by (simp split: if_splits)
  have 2: "\<not> has_elevation [Some ''300'', Some ''400'', Some []]"
    using builder [OF line_mixed_example] 1 by (simp split: if_splits)
  have 3: "\<not> truthy (row_get_default mast_row_flat ''z'' [])"
    using mast [OF conjI [OF process_row_mast_flat t(1)]] by (simp split: if_splits)
  have 4: "truthy (row_get_default ac_row ''z1'' []) \<and> truthy (row_get_default ac_row ''z2'' [])"
    using span [OF conjI [OF process_row_ac t(2)]] by (simp split: if_splits)
  note any = crs_by_elevation [THEN conjunct2, THEN conjunct1, rule_format]
  note 5 = any [OF process_row_guy]
  from 1 2 3 4 5 t point_z_example line_mixed_example process_row_mast_flat process_row_ac
    process_row_guy
  show ?thesis by (intro conjI) simp_all
qed

lemma create_geometry_point_triple:
  assumes "create_geometry pf [[x, y, z]] False = Inr (g, c)"
  shows "\<exists>fx fy. parsed pf x = Some fx \<and> parsed pf y = Some fy
           \<and> (if truthy z
               then \<exists>fz. parsed pf z = Some fz \<and> g = Point [fy, fx, fz] \<and> c = mk_crs ''EPSG:5972''
               else g = Point [fy, fx] \<and> c = mk_crs ''EPSG:25832'')"
proof -
  have h: "has_z_all [[x, y, z]] = Inr (truthy z)"
    by (simp add: item_def truthy_iff)
  from assms show ?thesis
    unfolding create_geometry_Inr h
    by (auto simp: point_coords_triple point_coords_z_triple numeric_def split: if_splits)
qed

lemma create_geometry_line_triples:
  assumes "create_geometry pf [[x1, y1, z1], [x2, y2, z2]] True = Inr (g, c)"
  shows "\<exists>fx1 fy1 fx2 fy2.
           parsed pf x1 = Some fx1 \<and> parsed pf y1 = Some fy1
         \<and> parsed pf x2 = Some fx2 \<and> parsed pf y2 = Some fy2
         \<and> (if truthy z1 \<and> truthy z2
             then \<exists>fz1 fz2. parsed pf z1 = Some fz1 \<and> parsed pf z2 = Some fz2
                    \<and> g = LineString [[fy1, fx1, fz1], [fy2, fx2, fz2]]
                    \<and> c = mk_crs ''EPSG:5972''
             else g = LineString [[fy1, fx1], [fy2, fx2]] \<and> c = mk_crs ''EPSG:25832'')"
proof -
  have h: "has_z_all [[x1, y1, z1], [x2, y2, z2]] = Inr (truthy z1 \<and> truthy z2)"
    by (simp add: item_def truthy_iff)
  from assms show ?thesis
    unfolding create_geometry_Inr h
    by (auto simp: line_coords_Inr line_coords_z_Inr
        simp del: line_coords.simps line_coords_z.simps split: if_splits)
qed


text \<open>
  C2. The builder emits the second component of a source triple first and the first
  second, with the third, if any, last. Whenever it returns for a point given as one triple
  \<open>[x, y, z]\<close>, the point is \<open>[y, x, z]\<close> with the CRS \<^verbatim>\<open>EPSG:5972\<close> if \<open>z\<close> is
  non-empty and \<open>[y, x]\<close> with \<^verbatim>\<open>EPSG:25832\<close> otherwise, each component being the
  number its text denotes; whenever it returns for a line of two triples, both positions
  are ordered so. For \<open>x = 100\<close>, \<open>y = 200\<close> without elevation the point is
  \<open>[200, 100]\<close> in \<^verbatim>\<open>EPSG:25832\<close>, and with \<open>z = 10\<close> it is \<open>[200, 100, 10]\<close> in
  \<^verbatim>\<open>EPSG:5972\<close>. The same holds of the geometry of every row that converts: a mast row
  from its columns \<^verbatim>\<open>x\<close>, \<^verbatim>\<open>y\<close>, \<^verbatim>\<open>z\<close>, a span row from \<^verbatim>\<open>x1\<close>, \<^verbatim>\<open>y1\<close>,
  \<^verbatim>\<open>z1\<close> and \<^verbatim>\<open>x2\<close>, \<^verbatim>\<open>y2\<close>, \<^verbatim>\<open>z2\<close>.
\<close>

theorem axis_swap:
  "(create_geometry pf [[x, y, z]] False = Inr (g, c) \<longrightarrow>
      (\<exists>fx fy. parsed pf x = Some fx \<and> parsed pf y = Some fy
         \<and> (if truthy z
             then \<exists>fz. parsed pf z = Some fz \<and> g = Point [fy, fx, fz] \<and> c = mk_crs ''EPSG:5972''
             else g = Point [fy, fx] \<and> c = mk_crs ''EPSG:25832'')))
   \<and> (create_geometry pf [[x1, y1, z1], [x2, y2, z2]] True = Inr (g, c) \<longrightarrow>
      (\<exists>fx1 fy1 fx2 fy2.
           parsed pf x1 = Some fx1 \<and> parsed pf y1 = Some fy1
         \<and> parsed pf x2 = Some fx2 \<and> parsed pf y2 = Some fy2
         \<and> (if truthy z1 \<and> truthy z2
             then \<exists>fz1 fz2. parsed pf z1 = Some fz1 \<and> parsed pf z2 = Some fz2
                    \<and> g = LineString [[fy1, fx1, fz1], [fy2, fx2, fz2]]
                    \<and> c = mk_crs ''EPSG:5972''
             else g = LineString [[fy1, fx1], [fy2, fx2]] \<and> c = mk_crs ''EPSG:25832'')))
   \<and> (pf ''100'' = Some a \<and> pf ''200'' = Some b \<longrightarrow>
        create_geometry pf [[Some ''100'', Some ''200'', Some []]] False
          = Inr (Point [b, a], mk_crs ''EPSG:25832''))
   \<and> (pf ''100'' = Some a \<and> pf ''200'' = Some b \<and> pf ''10'' = Some d \<longrightarrow>
        create_geometry pf [[Some ''100'', Some ''200'', Some ''10'']] False
          = Inr (Point [b, a, d], mk_crs ''EPSG:5972''))
   \<and> (process_row pf pu row = Inr (f, c') \<and> row_get row ''Tabell ID'' = Some ''109'' \<longrightarrow>
      (\<exists>fx fy. parsed pf (row_get row ''x'') = Some fx \<and> parsed pf (row_get row ''y'') = Some fy
         \<and> (if truthy (row_get_default row ''z'' [])
             then \<exists>fz. parsed pf (row_get_default row ''z'' []) = Some fz
                    \<and> geometry f = Point [fy, fx, fz]
             else geometry f = Point [fy, fx])))
   \<and> (process_row pf pu row = Inr (f, c') \<and> row_get row ''Tabell ID'' = Some ''261'' \<longrightarrow>
      (\<exists>fx1 fy1 fx2 fy2.
           parsed pf (row_get row ''x1'') = Some fx1 \<and> parsed pf (row_get row ''y1'') = Some fy1
         \<and> parsed pf (row_get row ''x2'') = Some fx2 \<and> parsed pf (row_get row ''y2'') = Some fy2
         \<and> (if truthy (row_get_default row ''z1'' []) \<and> truthy (row_get_default row ''z2'' [])
             then \<exists>fz1 fz2. parsed pf (row_get_default row ''z1'' []) = Some fz1
                    \<and> parsed pf (row_get_default row ''z2'' []) = Some fz2
                    \<and> geometry f = LineString [[fy1, fx1, fz1], [fy2, fx2, fz2]]
             else geometry f = LineString [[fy1, fx1], [fy2, fx2]])))"
proof (intro conjI impI)
  assume "create_geometry pf [[x, y, z]] False = Inr (g, c)"
  then show "\<exists>fx fy. parsed pf x = Some fx \<and> parsed pf y = Some fy
         \<and> (if truthy z
             then \<exists>fz. parsed pf z = Some fz \<and> g = Point [fy, fx, fz] \<and> c = mk_crs ''EPSG:5972''
             else g = Point [fy, fx] \<and> c = mk_crs ''EPSG:25832'')"
    by (rule create_geometry_point_triple)
next
  assume "create_geometry pf [[x1, y1, z1], [x2, y2, z2]] True = Inr (g, c)"
  then show "\<exists>fx1 fy1 fx2 fy2.
           parsed pf x1 = Some fx1 \<and> parsed pf y1 = Some fy1
         \<and> parsed pf x2 = Some fx2 \<and> parsed pf y2 = Some fy2
         \<and> (if truthy z1 \<and> truthy z2
             then \<exists>fz1 fz2. parsed pf z1 = Some fz1 \<and> parsed pf z2 = Some fz2
                    \<and> g = LineString [[fy1, fx1, fz1], [fy2, fx2, fz2]]
                    \<and> c = mk_crs ''EPSG:5972''
             else g = LineString [[fy1, fx1], [fy2, fx2]] \<and> c = mk_crs ''EPSG:25832'')"
    by (rule create_geometry_line_triples)
next
  assume "pf ''100'' = Some a \<and> pf ''200'' = Some b"
  then show "create_geometry pf [[Some ''100'', Some ''200'', Some []]] False
          = Inr (Point [b, a], mk_crs ''EPSG:25832'')"
    by (simp add: create_geometry_def item_def point_coords_def replace_comma_def
        except_value_error_def)
next
  assume "pf ''100'' = Some a \<and> pf ''200'' = Some b \<and> pf ''10'' = Some d"
  then show "create_geometry pf [[Some ''100'', Some ''200'', Some ''10'']] False
          = Inr (Point [b, a, d], mk_crs ''EPSG:5972'')"
    by (simp add: create_geometry_def item_def point_coords_z_def replace_comma_def
        except_value_error_def)
next
  assume "process_row pf pu row = Inr (f, c') \<and> row_get row ''Tabell ID'' = Some ''109''"
  then obtain x y where r: "row ''x'' = Some x" "row ''y'' = Some y"
    and g: "create_geometry pf [[x, y, row_get_default row ''z'' []]] False = Inr (geometry f, c')"
    using process_row_mast_Inr [of pf pu row f c'] by blast
  from r have "row_get row ''x'' = x" "row_get row ''y'' = y"
    by (simp_all add: row_get_def)
  with create_geometry_point_triple [OF g]
  show "\<exists>fx fy. parsed pf (row_get row ''x'') = Some fx \<and> parsed pf (row_get row ''y'') = Some fy
         \<and> (if truthy (row_get_default row ''z'' [])
             then \<exists>fz. parsed pf (row_get_default row ''z'' []) = Some fz
                    \<and> geometry f = Point [fy, fx, fz]
             else geometry f = Point [fy, fx])"
    by (auto split: if_splits)
next
  assume "process_row pf pu row = Inr (f, c') \<and> row_get row ''Tabell ID'' = Some ''261''"
  then obtain cs where cs: "span_coordinates row = Inr cs"
    and g: "create_geometry pf cs True = Inr (geometry f, c')"
    using process_row_span_Inr [of pf pu row f c'] by blast
  from cs obtain x1 y1 x2 y2 where r: "row ''x1'' = Some x1" "row ''y1'' = Some y1"
      "row ''x2'' = Some x2" "row ''y2'' = Some y2"
    and e: "cs = [[x1, y1, row_get_default row ''z1'' []], [x2, y2, row_get_default row ''z2'' []]]"
    unfolding span_coordinates_Inr by blast
  from r have "row_get row ''x1'' = x1" "row_get row ''y1'' = y1"
    "row_get row ''x2'' = x2" "row_get row ''y2'' = y2"
    by (simp_all add: row_get_def)
  with create_geometry_line_triples [OF g [unfolded e]]
  show "\<exists>fx1 fy1 fx2 fy2.
           parsed pf (row_get row ''x1'') = Some fx1 \<and> parsed pf (row_get row ''y1'') = Some fy1
         \<and> parsed pf (row_get row ''x2'') = Some fx2 \<and> parsed pf (row_get row ''y2'') = Some fy2
         \<and> (if truthy (row_get_default row ''z1'' []) \<and> truthy (row_get_default row ''z2'' [])
             then \<exists>fz1 fz2. parsed pf (row_get_default row ''z1'' []) = Some fz1
                    \<and> parsed pf (row_get_default row ''z2'' []) = Some fz2
                    \<and> geometry f = LineString [[fy1, fx1, fz1], [fy2, fx2, fz2]]
             else geometry f = LineString [[fy1, fx1], [fy2, fx2]])"
    by (auto split: if_splits)
qed

theorem axis_swap_witness:
  "create_geometry decimal_float [[Some ''100'', Some ''200'', Some []]] False
     = Inr (Point [200, 100], mk_crs ''EPSG:25832'')
   \<and> create_geometry decimal_float [[Some ''100'', Some ''200'', Some ''10'']] False
     = Inr (Point [200, 100, 10], mk_crs ''EPSG:5972'')
   \<and> create_geometry decimal_float
       [[Some ''100'', Some ''200'', Some ''10''], [Some ''300'', Some ''400'', Some ''20'']] True
     = Inr (LineString [[200, 100, 10], [400, 300, 20]], mk_crs ''EPSG:5972'')
   \<and> process_row decimal_float canonical_uuid mast_row_z = Inr (mast_feature_z, mk_crs ''EPSG:5972'')
   \<and> row_get mast_row_z ''Tabell ID'' = Some ''109''
   \<and> geometry mast_feature_z = Point [200, 100, 10]
   \<and> process_row decimal_float canonical_uuid guy_row = Inr (guy_feature, mk_crs ''EPSG:5972'')
   \<and> row_get guy_row ''Tabell ID'' = Some ''261''
   \<and> geometry guy_feature = LineString [[200, 100, 10], [400, 300, 20]]
   \<and> (\<exists>fx1 fy1 fx2 fy2 fz1 fz2.
           parsed decimal_float (Some ''100'') = Some fx1 \<and> parsed decimal_float (Some ''200'') = Some fy1
         \<and> parsed decimal_float (Some ''300'') = Some fx2 \<and> parsed decimal_float (Some ''400'') = Some fy2
         \<and> parsed decimal_float (Some ''10'') = Some fz1 \<and> parsed decimal_float (Some ''20'') = Some fz2
         \<and> LineString [[200, 100, 10], [400, 300, 20]] = LineString [[fy1, fx1, fz1], [fy2, fx2, fz2]])
   \<and> (\<exists>fx fy fz.
           parsed decimal_float (Some ''100'') = Some fx \<and> parsed decimal_float (Some ''200'') = Some fy
         \<and> parsed decimal_float (Some ''10'') = Some fz
         \<and> Point [200, 100, 10] = Point [fy, fx, fz])"
proof -
  note point = axis_swap [THEN conjunct1, rule_format]
  note line = axis_swap [THEN conjunct2, THEN conjunct1, rule_format]
  note flat = axis_swap [THEN conjunct2, THEN conjunct2, THEN conjunct1, rule_format]
  note elev = axis_swap [THEN conjunct2, THEN conjunct2, THEN conjunct2, THEN conjunct1, rule_format]
  note mast = axis_swap [THEN conjunct2, THEN conjunct2, THEN conjunct2, THEN conjunct2,
      THEN conjunct1, rule_format]
  note span = axis_swap [THEN conjunct2, THEN conjunct2, THEN conjunct2, THEN conjunct2,
      THEN conjunct2, rule_format]
  have t: "row_get mast_row_z ''Tabell ID'' = Some ''109''"
    "row_get guy_row ''Tabell ID'' = Some ''261''"
    by (simp_all add: row_get_def mast_row_z_def guy_row_def)
  have 1: "create_geometry decimal_float [[Some ''100'', Some ''200'', Some []]] False
     = Inr (Point [200, 100], mk_crs ''EPSG:25832'')"
    using flat [of decimal_float 100 200] by (simp add: decimal_float_examples)
  have 2: "create_geometry decimal_float [[Some ''100'', Some ''200'', Some ''10'']] False
     = Inr (Point [200, 100, 10], mk_crs ''EPSG:5972'')"
    using elev [of decimal_float 100 200 10] by (simp add: decimal_float_examples)
  have 3: "geometry mast_feature_z = Point [200, 100, 10]"
    using mast [OF conjI [OF process_row_mast_z t(1)]]
    by (simp add: row_get_def row_get_default_def mast_row_z_def truthy_def parsed_examples)
  have 4: "geometry guy_feature = LineString [[200, 100, 10], [400, 300, 20]]"
    using span [OF conjI [OF process_row_guy t(2)]]
    by (simp add: row_get_def row_get_default_def guy_row_def truthy_def parsed_examples)
  have 5: "\<exists>fx1 fy1 fx2 fy2 fz1 fz2.
           parsed decimal_float (Some ''100'') = Some fx1 \<and> parsed decimal_float (Some ''200'') = Some fy1
         \<and> parsed decimal_float (Some ''300'') = Some fx2 \<and> parsed decimal_float (Some ''400'') = Some fy2
         \<and> parsed decimal_float (Some ''10'') = Some fz1 \<and> parsed decimal_float (Some ''20'') = Some fz2
         \<and> LineString [[200, 100, 10], [400, 300, 20]] = LineString [[fy1, fx1, fz1], [fy2, fx2, fz2]]"
    using line [OF line_z_example] by (simp add: truthy_def)
  have 6: "\<exists>fx fy fz.
           parsed decimal_float (Some ''100'') = Some fx \<and> parsed decimal_float (Some ''200'') = Some fy
         \<and> parsed decimal_float (Some ''10'') = Some fz
         \<and> Point [200, 100, 10] = Point [fy, fx, fz]"
    using point [OF point_z_example] by (simp add: truthy_def)
  from 1 2 3 4 5 6 t line_z_example process_row_mast_z process_row_guy
  show ?thesis by (intro conjI)
qed

subsection \<open>The number of points of a line\<close>

lemma has_z_all_Inl: "has_z_all cs = Inl e \<Longrightarrow> e = IndexError"
  by (induction cs) (auto simp: item_def rbind_def split: if_splits)

lemma except_value_error_not_arity:
  "except_value_error m \<noteq> Inl (ValueError LineStringRequires2Points)"
  by (auto simp: except_value_error_def split: sum.splits py_error.splits)

lemma create_geometry_point_no_arity:
  "create_geometry pf cs False \<noteq> Inl (ValueError LineStringRequires2Points)"
proof (cases "has_z_all cs")
  case (Inl e)
  with has_z_all_Inl [OF Inl] show ?thesis
    by (simp add: create_geometry_def)
next
  case (Inr b)
  then show ?thesis
    by (simp add: create_geometry_def except_value_error_not_arity)
qed

lemma create_geometry_line_count:
  assumes "\<forall>coord\<in>set cs. length coord = 3" and "length cs \<noteq> 2"
  shows "create_geometry pf cs True = Inl (ValueError LineStringRequires2Points)"
proof -
  from assms(1) have "\<forall>c\<in>set cs. 2 < length c" by simp
  from has_z_all_triples [OF this] assms(2) show ?thesis
    by (simp add: create_geometry_def)
qed

lemma create_geometry_line_length:
  assumes "create_geometry pf cs True = Inr (g, c)"
  shows "\<exists>ps. g = LineString ps \<and> length ps = 2"
  using assms unfolding create_geometry_Inr
  by (auto simp: line_coords_Inr line_coords_z_Inr split: if_splits)

text \<open>
  C9. Asked for a line, the builder raises the ValueError \<^verbatim>\<open>LineString requires exactly
  2 points\<close> on every list of coordinate triples whose length is not 2. Asked for a point,
  it never raises this error. Whenever it returns a line, the line has exactly two
  positions; so every row of table 261 that converts gives one feature, whose properties
  are those of a Luftspenn and whose geometry is a LineString of exactly two positions.
\<close>

theorem line_arity:
  "((\<forall>coord\<in>set cs. length coord = 3) \<and> length cs \<noteq> 2 \<longrightarrow>
      create_geometry pf cs True = Inl (ValueError LineStringRequires2Points))
   \<and> create_geometry pf cs False \<noteq> Inl (ValueError LineStringRequires2Points)
   \<and> (create_geometry pf cs True = Inr (g, c) \<longrightarrow> (\<exists>ps. g = LineString ps \<and> length ps = 2))
   \<and> (process_row pf pu row = Inr (f, c) \<and> row_get row ''Tabell ID'' = Some ''261'' \<longrightarrow>
        (\<exists>ps l. geometry f = LineString ps \<and> length ps = 2 \<and> feature_properties f = Luftspenn l))"
proof (intro conjI impI)
  assume "(\<forall>coord\<in>set cs. length coord = 3) \<and> length cs \<noteq> 2"
  then show "create_geometry pf cs True = Inl (ValueError LineStringRequires2Points)"
    using create_geometry_line_count [of cs pf] by blast
next
  show "create_geometry pf cs False \<noteq> Inl (ValueError LineStringRequires2Points)"
    by (rule create_geometry_point_no_arity)
next
  assume "create_geometry pf cs True = Inr (g, c)"
  then show "\<exists>ps. g = LineString ps \<and> length ps = 2"
    by (rule create_geometry_line_length)
next
  assume "process_row pf pu row = Inr (f, c) \<and> row_get row ''Tabell ID'' = Some ''261''"
  then obtain cs' l where "create_geometry pf cs' True = Inr (geometry f, c)"
    and "feature_properties f = Luftspenn l"
    using process_row_span_Inr [of pf pu row f c] by blast
  with create_geometry_line_length [of pf cs' "geometry f" c]
  show "\<exists>ps l. geometry f = LineString ps \<and> length ps = 2 \<and> feature_properties f = Luftspenn l"
    by blast
qed

theorem line_arity_witness:
  "list_all (\<lambda>coord. length coord = 3) [[Some ''100'', Some ''200'', Some ''10'']]
   \<and> length [[Some ''100'', Some ''200'', Some ''10'']] \<noteq> 2
   \<and> create_geometry decimal_float [[Some ''100'', Some ''200'', Some ''10'']] True
       = Inl (ValueError LineStringRequires2Points)
   \<and> create_geometry decimal_float [[Some ''100'', Some ''200'', Some ''10'']] False
       = Inr (Point [200, 100, 10], mk_crs ''EPSG:5972'')
   \<and> create_geometry decimal_float ([] :: string option list list) True
       = Inl (ValueError LineStringRequires2Points)
   \<and> create_geometry decimal_float
       [[Some ''100'', Some ''200'', Some ''10''], [Some ''300'', Some ''400'', Some ''20'']] True
     = Inr (LineString [[200, 100, 10], [400, 300, 20]], mk_crs ''EPSG:5972'')
   \<and> (\<exists>ps. LineString [[200, 100, 10], [400, 300, 20 :: rat]] = LineString ps \<and> length ps = 2)
   \<and> process_row decimal_float canonical_uuid ac_row = Inr (ac_feature, mk_crs ''EPSG:5972'')
   \<and> row_get ac_row ''Tabell ID'' = Some ''261''
   \<and> (\<exists>ps l. geometry ac_feature = LineString ps \<and> length ps = 2
         \<and> feature_properties ac_feature = Luftspenn l)"
proof -
  let ?p = "[[Some ''100'', Some ''200'', Some ''10'']]"
  note arity = line_arity [THEN conjunct1, rule_format]
  note len = line_arity [THEN conjunct2, THEN conjunct2, THEN conjunct1, rule_format]
  note span = line_arity [THEN conjunct2, THEN conjunct2, THEN conjunct2, rule_format]
  have h: "(\<forall>coord\<in>set ?p. length coord = 3) \<and> length ?p \<noteq> 2"
    by simp
  have h0: "(\<forall>coord\<in>set ([] :: string option list list). length coord = 3)
      \<and> length ([] :: string option list list) \<noteq> 2"
    by simp
  have t: "row_get ac_row ''Tabell ID'' = Some ''261''"
    by (simp add: row_get_def ac_row_def)
  note 1 = arity [of ?p decimal_float, OF h]
  note 2 = arity [of "[]" decimal_float, OF h0]
  note 3 = len [OF line_z_example]
  note 4 = span [OF conjI [OF process_row_ac t]]
  from h 1 2 3 4 t point_z_example line_z_example process_row_ac
  show ?thesis by (intro conjI) simp_all
qed

subsection \<open>Coordinates of which only some have an elevation\<close>

lemma flat_geometry_dimension: "has_dimension 2 (flat_geometry pf cs is_line)"
  by (simp add: flat_geometry_def list_all_iff)

lemma create_geometry_flat:
  assumes triples: "\<forall>coord\<in>set cs. length coord = 3 \<and> numeric pf (coord ! 0) \<and> numeric pf (coord ! 1)"
    and flat: "\<exists>coord\<in>set cs. \<not> has_elevation coord"
    and arity: "is_line \<longrightarrow> length cs = 2"
  shows "create_geometry pf cs is_line = Inr (flat_geometry pf cs is_line, mk_crs ''EPSG:25832'')"
proof -
  from triples have "\<forall>c\<in>set cs. 2 < length c" by simp
  from has_z_all_triples [OF this] flat have h: "has_z_all cs = Inr False"
    by auto
  show ?thesis
  proof (cases is_line)
    case True
    from triples have "\<forall>c\<in>set cs. 1 < length c \<and> parsed pf (c ! 0) \<noteq> None \<and> parsed pf (c ! 1) \<noteq> None"
      by (auto simp: numeric_def)
    then have "line_coords pf cs
        = Inr (map (\<lambda>coord. [the (parsed pf (coord ! 1)), the (parsed pf (coord ! 0))]) cs)"
      by (simp only: line_coords_Inr simp_thms)
    with True arity h show ?thesis
      by (simp add: create_geometry_def flat_geometry_def)
  next
    case False
    from flat obtain c0 rest where cs: "cs = c0 # rest"
      by (cases cs) auto
    with triples have "length c0 = 3" by simp
    then obtain x y z where c0: "c0 = [x, y, z]"
      by (cases c0; cases "tl c0"; cases "tl (tl c0)") auto
    from triples cs c0 have "numeric pf x" "numeric pf y" by auto
    then have "point_coords pf cs = Inr [the (parsed pf y), the (parsed pf x)]"
      unfolding cs c0 by (simp only: point_coords_triple simp_thms)
    with False h show ?thesis
      by (simp add: create_geometry_def flat_geometry_def cs c0)
  qed
qed

text \<open>
  C10. Given triples of which at least one has a non-empty third component and at least
  one has none, with every first and second component a non-empty text that is a number
  (and two triples, for a line), the builder returns: the CRS is \<^verbatim>\<open>EPSG:25832\<close>, every
  position of the geometry has two components, the first two of its triple swapped, and
  the result is the one for the same triples with every third component removed.
\<close>

theorem mixed_elevation_degrades:
  assumes "\<forall>coord\<in>set cs. length coord = 3 \<and> numeric pf (coord ! 0) \<and> numeric pf (coord ! 1)"
    and "\<exists>coord\<in>set cs. has_elevation coord"
    and "\<exists>coord\<in>set cs. \<not> has_elevation coord"
    and "is_line \<longrightarrow> length cs = 2"
  shows "create_geometry pf cs is_line = Inr (flat_geometry pf cs is_line, mk_crs ''EPSG:25832'')
    \<and> has_dimension 2 (flat_geometry pf cs is_line)
    \<and> create_geometry pf cs is_line
        = create_geometry pf (map (\<lambda>coord. coord[2 := None]) cs) is_line"
proof -
  let ?cs = "map (\<lambda>coord. coord[2 := None]) cs"
  note r = create_geometry_flat [OF assms(1) assms(3) assms(4)]
  have 1: "\<forall>coord\<in>set ?cs. length coord = 3 \<and> numeric pf (coord ! 0) \<and> numeric pf (coord ! 1)"
    using assms(1) by auto
  from assms(3) obtain c where "c \<in> set cs" by blast
  then have "c[2 := None] \<in> set ?cs" by simp
  moreover from assms(1) \<open>c \<in> set cs\<close> have "\<not> has_elevation (c[2 := None])"
    by (simp add: has_elevation_def truthy_def)
  ultimately have 2: "\<exists>coord\<in>set ?cs. \<not> has_elevation coord" by blast
  from assms(4) have 3: "is_line \<longrightarrow> length ?cs = 2" by simp
  have "map (\<lambda>coord. [the (parsed pf (coord ! 1)), the (parsed pf (coord ! 0))]) ?cs
      = map (\<lambda>coord. [the (parsed pf (coord ! 1)), the (parsed pf (coord ! 0))]) cs"
    by simp
  moreover have "hd ?cs ! 1 = hd cs ! 1" "hd ?cs ! 0 = hd cs ! 0"
    using \<open>c \<in> set cs\<close> by (cases cs; simp)+
  ultimately have "flat_geometry pf ?cs is_line = flat_geometry pf cs is_line"
    by (simp add: flat_geometry_def)
  with create_geometry_flat [OF 1 2 3] r flat_geometry_dimension [of pf cs is_line]
  show ?thesis by simp
qed

theorem mixed_elevation_degrades_witness:
  "create_geometry decimal_float
     [[Some ''100'', Some ''200'', Some ''10''], [Some ''300'', Some ''400'', Some []]] True
     = Inr (LineString [[200, 100], [400, 300]], mk_crs ''EPSG:25832'')
   \<and> create_geometry decimal_float
     [[Some ''100'', Some ''200'', None], [Some ''300'', Some ''400'', Some ''abc'']] True
     = Inr (LineString [[200, 100], [400, 300]], mk_crs ''EPSG:25832'')
   \<and> create_geometry decimal_float
     [[Some ''100'', Some ''200'', Some ''10''], [Some ''300'', Some ''400'', Some []],
      [Some ''300'', Some ''400'', Some ''20'']] False
     = Inr (Point [200, 100], mk_crs ''EPSG:25832'')"
proof -
  let ?a = "[[Some ''100'', Some ''200'', Some ''10''], [Some ''300'', Some ''400'', Some []]]"
  let ?b = "[[Some ''100'', Some ''200'', None], [Some ''300'', Some ''400'', Some ''abc'']]"
  let ?c = "[[Some ''100'', Some ''200'', Some ''10''], [Some ''300'', Some ''400'', Some []],
      [Some ''300'', Some ''400'', Some ''20'']]"
  have n: "numeric decimal_float (Some ''100'')" "numeric decimal_float (Some ''200'')"
    "numeric decimal_float (Some ''300'')" "numeric decimal_float (Some ''400'')"
    by (simp_all add: numeric_def truthy_def parsed_examples)
  have a: "\<forall>coord\<in>set ?a. length coord = 3 \<and> numeric decimal_float (coord ! 0)
        \<and> numeric decimal_float (coord ! 1)"
    "\<exists>coord\<in>set ?a. has_elevation coord" "\<exists>coord\<in>set ?a. \<not> has_elevation coord"
    "True \<longrightarrow> length ?a = 2"
    by (simp_all add: n has_elevation_def truthy_def)
  have b: "\<forall>coord\<in>set ?b. length coord = 3 \<and> numeric decimal_float (coord ! 0)
        \<and> numeric decimal_float (coord ! 1)"
    "\<exists>coord\<in>set ?b. has_elevation coord" "\<exists>coord\<in>set ?b. \<not> has_elevation coord"
    "True \<longrightarrow> length ?b = 2"
    by (simp_all add: n has_elevation_def truthy_def)
  have c: "\<forall>coord\<in>set ?c. length coord = 3 \<and> numeric decimal_float (coord ! 0)
        \<and> numeric decimal_float (coord ! 1)"
    "\<exists>coord\<in>set ?c. has_elevation coord" "\<exists>coord\<in>set ?c. \<not> has_elevation coord"
    "False \<longrightarrow> length ?c = 2"
    by (simp_all add: n has_elevation_def truthy_def)
  have 1: "create_geometry decimal_float ?a True
     = Inr (LineString [[200, 100], [400, 300]], mk_crs ''EPSG:25832'')"
    using mixed_elevation_degrades [OF a, THEN conjunct1]
    by (simp add: flat_geometry_def parsed_examples)
  have 2: "create_geometry decimal_float ?b True
     = Inr (LineString [[200, 100], [400, 300]], mk_crs ''EPSG:25832'')"
    using mixed_elevation_degrades [OF b, THEN conjunct1]
    by (simp add: flat_geometry_def parsed_examples)
  have 3: "create_geometry decimal_float ?c False
     = Inr (Point [200, 100], mk_crs ''EPSG:25832'')"
    using mixed_elevation_degrades [OF c, THEN conjunct1]
    by (simp add: flat_geometry_def parsed_examples)
  from 1 2 3 show ?thesis by (intro conjI)
qed

subsection \<open>Lighting and marking of an AC line segment\<close>

lemma column_names_unaccepted:
  "map_lighting_kind (Some ''Luftfartshinderlyssetting(NRL)'') = None"
  "map_marking_kind (Some ''Luftfartshindermerking(NRL)'') = None"
  by (simp_all add: map_lighting_kind_def map_marking_kind_def truthy_def dict_get_def
      lighting_kind_mapping_def marking_kind_mapping_def)

lemma convert_ac_linesegments_rows_lighting:
  assumes "convert_ac_linesegments_rows pf pu row = Inr (f, c)"
  shows "\<exists>l. feature_properties f = Luftspenn l
           \<and> span_luftfartshinderlyssetting l = None \<and> span_luftfartshindermerking l = None"
  using assms
  by (auto simp: convert_ac_linesegments_rows_def rbind_eq_Inr Let_def column_names_unaccepted)

lemma convert_overhead_structure_rows_lighting:
  assumes "convert_overhead_structure_rows pf pu row = Inr (f, c)"
  shows "\<exists>m. feature_properties f = Mast m
           \<and> luftfartshinderlyssetting m
               = map_lighting_kind (row_get row ''Luftfartshinderlyssetting(NRL)'')
           \<and> luftfartshindermerking m
               = map_marking_kind (row_get row ''Luftfartshindermerking (NRL)'')"
  using assms
  by (auto simp: convert_overhead_structure_rows_def rbind_eq_Inr Let_def)

text \<open>
  C3. The row \<open>ac_row\<close> is an AC line segment whose lighting column holds the accepted
  text \<^verbatim>\<open>Lyssatt\<close> and whose marking column, under either spelling of its name, holds
  the accepted text \<^verbatim>\<open>Fargemerking\<close>. It converts, and the lighting and the marking of its
  feature are both \<^verbatim>\<open>None\<close>. (The assembler of masts resolves both from the row, as
  \<open>convert_overhead_structure_rows_lighting\<close> states.)
\<close>

theorem ac_row_lighting_dropped:
  "row_get ac_row ''Tabell ID'' = Some ''261''
   \<and> row_get ac_row ''Betegnelse'' = Some ''Ledning''
   \<and> row_get ac_row ''Luftfartshinderlyssetting(NRL)'' = Some ''Lyssatt''
   \<and> map_lighting_kind (Some ''Lyssatt'') = Some lyssatt
   \<and> row_get ac_row ''Luftfartshindermerking(NRL)'' = Some ''Fargemerking''
   \<and> row_get ac_row ''Luftfartshindermerking (NRL)'' = Some ''Fargemerking''
   \<and> map_marking_kind (Some ''Fargemerking'') = Some fargermerking
   \<and> (\<exists>g l. process_row decimal_float canonical_uuid ac_row
          = Inr (\<lparr>geometry = g, feature_properties = Luftspenn l\<rparr>, mk_crs ''EPSG:5972'')
        \<and> span_luftfartshinderlyssetting l = None
        \<and> span_luftfartshindermerking l = None)"
proof -
  have "row_get ac_row ''Tabell ID'' = Some ''261''"
    "row_get ac_row ''Betegnelse'' = Some ''Ledning''"
    "row_get ac_row ''Luftfartshinderlyssetting(NRL)'' = Some ''Lyssatt''"
    "row_get ac_row ''Luftfartshindermerking(NRL)'' = Some ''Fargemerking''"
    "row_get ac_row ''Luftfartshindermerking (NRL)'' = Some ''Fargemerking''"
    by (simp_all add: row_get_def ac_row_def)
  moreover have "map_lighting_kind (Some ''Lyssatt'') = Some lyssatt"
    "map_marking_kind (Some ''Fargemerking'') = Some fargermerking"
    by (simp_all add: map_lighting_kind_def map_marking_kind_def truthy_def dict_get_def
        lighting_kind_mapping_def marking_kind_mapping_def)
  moreover have "\<exists>g l. process_row decimal_float canonical_uuid ac_row
          = Inr (\<lparr>geometry = g, feature_properties = Luftspenn l\<rparr>, mk_crs ''EPSG:5972'')
        \<and> span_luftfartshinderlyssetting l = None
        \<and> span_luftfartshindermerking l = None"
    by (simp add: process_row_ac ac_feature_def)
  ultimately show ?thesis by (intro conjI)
qed

subsection \<open>The collection grouper\<close>

lemma set_first_occurrences [simp]: "set (first_occurrences xs) = set xs"
  by (induction xs) auto

lemma distinct_first_occurrences [simp]: "distinct (first_occurrences xs)"
  by (induction xs) (auto simp: distinct_removeAll)

lemma setdefault_append_keys:
  "map fst (setdefault_append d k v)
     = (if k \<in> set (map fst d) then map fst d else map fst d @ [k])"
  by (induction d k v rule: setdefault_append.induct) auto

lemma setdefault_append_lookup:
  "map_of (setdefault_append d k v) k'
     = (if k' = k then Some ((case map_of d k of None \<Rightarrow> [] | Some vs \<Rightarrow> vs) @ [v])
        else map_of d k')"
  by (induction d k v rule: setdefault_append.induct) auto

lemma filter_removeAll: "filter P (removeAll k xs) = filter (\<lambda>x. x \<noteq> k \<and> P x) xs"
  by (induction xs) auto

text \<open>The loop of the grouper on the pairs of a key and a value.\<close>

lemma foldl_setdefault_append_keys:
  "map fst (foldl (\<lambda>d (k, v). setdefault_append d k v) d kvs)
     = map fst d @ filter (\<lambda>k. k \<notin> set (map fst d)) (first_occurrences (map fst kvs))"
proof (induction kvs arbitrary: d)
  case Nil
  show ?case by simp
next
  case (Cons kv kvs)
  obtain k v where kv: "kv = (k, v)" by (cases kv)
  let ?fo = "first_occurrences (map fst kvs)"
  show ?case
  proof (cases "k \<in> set (map fst d)")
    case True
    then have "filter (\<lambda>x. x \<noteq> k \<and> x \<notin> set (map fst d)) ?fo
        = filter (\<lambda>x. x \<notin> set (map fst d)) ?fo"
      by (intro filter_cong) auto
    with True show ?thesis
      by (simp add: kv Cons.IH setdefault_append_keys filter_removeAll)
  next
    case False
    have "filter (\<lambda>x. x \<notin> set (map fst d @ [k])) ?fo
        = filter (\<lambda>x. x \<noteq> k \<and> x \<notin> set (map fst d)) ?fo"
      by (intro filter_cong) auto
    with False show ?thesis
      by (simp add: kv Cons.IH setdefault_append_keys filter_removeAll)
  qed
qed

lemma foldl_setdefault_append_lookup:
  "(case map_of (foldl (\<lambda>d (k, v). setdefault_append d k v) d kvs) k' of
      None \<Rightarrow> [] | Some vs \<Rightarrow> vs)
     = (case map_of d k' of None \<Rightarrow> [] | Some vs \<Rightarrow> vs)
        @ map snd (filter (\<lambda>kv. fst kv = k') kvs)"
proof (induction kvs arbitrary: d)
  case Nil
  show ?case by simp
next
  case (Cons kv kvs)
  obtain k v where kv: "kv = (k, v)" by (cases kv)
  show ?case
    by (simp add: kv Cons.IH setdefault_append_lookup)
qed

lemma grouped_items:
  assumes "(k, vs) \<in> set (foldl (\<lambda>d (k, v). setdefault_append d k v) [] kvs)"
  shows "vs = map snd (filter (\<lambda>kv. fst kv = k) kvs)"
proof -
  let ?d = "foldl (\<lambda>d (k, v). setdefault_append d k v) [] kvs"
  have "distinct (map fst ?d)"
    by (simp add: foldl_setdefault_append_keys)
  with assms have "map_of ?d k = Some vs"
    by simp
  with foldl_setdefault_append_lookup [of "[]" kvs k] show ?thesis
    by simp
qed

lemma grouped_keys:
  "map fst (foldl (\<lambda>d (k, v). setdefault_append d k v) [] kvs) = first_occurrences (map fst kvs)"
  by (simp add: foldl_setdefault_append_keys)

lemma process_rows_Inr:
  "(process_rows pf pu d rows = Inr d') =
     (\<exists>pairs. map (process_row pf pu) rows = map Inr pairs
        \<and> d' = foldl (\<lambda>d (k, v). setdefault_append d k v) d
                 (map (\<lambda>(f, c). (crs_name c, f)) pairs))"
proof (induction rows arbitrary: d)
  case Nil
  show ?case by auto
next
  case (Cons row rows)
  let ?step = "\<lambda>d (k, v). setdefault_append d k v"
  let ?kv = "\<lambda>(f, c). (crs_name c, f)"
  show ?case
  proof (cases "process_row pf pu row")
    case (Inl e)
    then show ?thesis
      by (auto simp: Cons_eq_map_conv)
  next
    case (Inr p)
    obtain f c where p: "p = (f, c)" by (cases p)
    let ?d = "setdefault_append d (crs_name c) f"
    have "(process_rows pf pu d (row # rows) = Inr d') = (process_rows pf pu ?d rows = Inr d')"
      by (simp add: Inr p crs_name_def)
    also have "\<dots> = (\<exists>pairs. map (process_row pf pu) rows = map Inr pairs
        \<and> d' = foldl ?step ?d (map ?kv pairs))"
      by (rule Cons.IH)
    also have "\<dots> = (\<exists>pairs. map (process_row pf pu) (row # rows) = map Inr pairs
        \<and> d' = foldl ?step d (map ?kv pairs))" (is "?L = ?R")
    proof
      assume ?L
      then obtain pairs where "map (process_row pf pu) rows = map Inr pairs"
        "d' = foldl ?step ?d (map ?kv pairs)" by blast
      then have "map (process_row pf pu) (row # rows) = map Inr ((f, c) # pairs)
        \<and> d' = foldl ?step d (map ?kv ((f, c) # pairs))"
        by (simp add: Inr p)
      then show ?R by blast
    next
      assume ?R
      then obtain pairs where ps: "map (process_row pf pu) (row # rows) = map Inr pairs"
        "d' = foldl ?step d (map ?kv pairs)" by blast
      from ps(1) obtain q rest where q: "pairs = q # rest" "process_row pf pu row = Inr q"
        "map (process_row pf pu) rows = map Inr rest"
        by (cases pairs) auto
      with Inr p have "q = (f, c)" by simp
      with ps(2) q have "d' = foldl ?step ?d (map ?kv rest)" by simp
      with q(3) show ?L by blast
    qed
    finally show ?thesis .
  qed
qed


lemma crs_name_mk_crs [simp]: "crs_name (mk_crs n) = n"
  by (simp add: crs_name_def)

lemma setdefault_append_total:
  "sum_list (map (\<lambda>kv. length (snd kv)) (setdefault_append d k v))
     = Suc (sum_list (map (\<lambda>kv. length (snd kv)) d))"
  by (induction d k v rule: setdefault_append.induct) auto

lemma foldl_setdefault_append_total:
  "sum_list (map (\<lambda>kv. length (snd kv)) (foldl (\<lambda>d (k, v). setdefault_append d k v) d kvs))
     = sum_list (map (\<lambda>kv. length (snd kv)) d) + length kvs"
proof (induction kvs arbitrary: d)
  case Nil
  show ?case by simp
next
  case (Cons kv kvs)
  obtain k v where kv: "kv = (k, v)" by (cases kv)
  show ?case
    by (simp add: kv Cons.IH setdefault_append_total)
qed

lemma create_geometry_dimension:
  assumes "create_geometry pf cs is_line = Inr (g, c)"
  shows "(crs_name c = ''EPSG:25832'' \<and> has_dimension 2 g)
       \<or> (crs_name c = ''EPSG:5972'' \<and> has_dimension 3 g)"
proof -
  from assms obtain has_z where c: "c = mk_crs (if has_z then ''EPSG:5972'' else ''EPSG:25832'')"
    and g: "if is_line
            then \<exists>ps. (if has_z then line_coords_z pf cs else line_coords pf cs) = Inr ps
                   \<and> g = LineString ps
            else \<exists>p. (if has_z then point_coords_z pf cs else point_coords pf cs) = Inr p
                   \<and> g = Point p"
    unfolding create_geometry_Inr by blast
  show ?thesis
  proof (cases has_z)
    case True
    with g have "has_dimension 3 g"
      by (auto simp: line_coords_z_Inr list_all_iff point_coords_z_length split: if_splits)
    with True c show ?thesis by (simp add: crs_name_def)
  next
    case False
    with g have "has_dimension 2 g"
      by (auto simp: line_coords_Inr list_all_iff point_coords_length split: if_splits)
    with False c show ?thesis by (simp add: crs_name_def)
  qed
qed

lemma process_row_dimension:
  assumes "process_row pf pu row = Inr (f, c)"
  shows "(crs_name c = ''EPSG:25832'' \<and> has_dimension 2 (geometry f))
       \<or> (crs_name c = ''EPSG:5972'' \<and> has_dimension 3 (geometry f))"
proof -
  from process_row_table [OF assms] process_row_span_Inr [OF assms] process_row_mast_Inr [OF assms]
  obtain cs is_line where "create_geometry pf cs is_line = Inr (geometry f, c)"
    by blast
  then show ?thesis by (rule create_geometry_dimension)
qed

lemma process_row_mast_crs:
  assumes "process_row pf pu row = Inr (f, c)" and "row_get row ''Tabell ID'' = Some ''109''"
  shows "c = mk_crs (if truthy (row_get_default row ''z'' []) then ''EPSG:5972'' else ''EPSG:25832'')"
proof -
  from process_row_mast_Inr [OF assms] obtain x y where
    "create_geometry pf [[x, y, row_get_default row ''z'' []]] False = Inr (geometry f, c)"
    by blast
  from create_geometry_crs [OF this] show ?thesis
    by (simp add: has_elevation_def)
qed

lemma process_csv_file_Inr:
  assumes "process_csv_file pf pu rows = Inr cols"
  shows "\<exists>pairs. map (process_row pf pu) rows = map Inr pairs
      \<and> map (\<lambda>col. crs_name (crs col)) cols = first_occurrences (map (\<lambda>(f, c). crs_name c) pairs)
      \<and> (\<forall>col\<in>set cols.
            features col = map fst (filter (\<lambda>(f, c). crs_name c = crs_name (crs col)) pairs))
      \<and> sum_list (map (\<lambda>col. length (features col)) cols) = length rows"
proof -
  let ?step = "\<lambda>d (k, v). setdefault_append d k v"
  let ?kv = "\<lambda>(f, c). (crs_name c, f)"
  let ?col = "\<lambda>(n, fs). \<lparr>crs = mk_crs n, features = fs\<rparr>"
  from assms obtain d where d: "process_rows pf pu [] rows = Inr d" and cols: "cols = map ?col d"
    by (auto simp: process_csv_file_def rbind_eq_Inr)
  from d obtain pairs where pairs: "map (process_row pf pu) rows = map Inr pairs"
    and fold: "d = foldl ?step [] (map ?kv pairs)"
    unfolding process_rows_Inr by blast
  have n: "map (\<lambda>col. crs_name (crs col)) cols = map fst d"
    by (simp add: cols crs_name_def split_def)
  have m: "map fst (map ?kv pairs) = map (\<lambda>(f, c). crs_name c) pairs"
    by (simp add: split_def comp_def)
  have "map fst d = first_occurrences (map fst (map ?kv pairs))"
    unfolding fold by (rule grouped_keys)
  with n have 1: "map (\<lambda>col. crs_name (crs col)) cols
      = first_occurrences (map (\<lambda>(f, c). crs_name c) pairs)"
    by (simp only: m)
  have 2: "\<forall>col\<in>set cols.
            features col = map fst (filter (\<lambda>(f, c). crs_name c = crs_name (crs col)) pairs)"
  proof
    fix col
    assume "col \<in> set cols"
    then obtain k fs where kfs: "(k, fs) \<in> set d" "col = \<lparr>crs = mk_crs k, features = fs\<rparr>"
      by (auto simp: cols)
    from grouped_items [of k fs "map ?kv pairs"] kfs(1) fold
    have "fs = map snd (filter (\<lambda>kv. fst kv = k) (map ?kv pairs))"
      by simp
    also have "\<dots> = map fst (filter (\<lambda>(f, c). crs_name c = k) pairs)"
      by (induction pairs) (auto simp: split_def)
    finally show "features col = map fst (filter (\<lambda>(f, c). crs_name c = crs_name (crs col)) pairs)"
      by (simp add: kfs(2) crs_name_def)
  qed
  have "sum_list (map (\<lambda>col. length (features col)) cols)
      = sum_list (map (\<lambda>kv. length (snd kv)) d)"
    by (simp add: cols comp_def split_def)
  also have "\<dots> = length pairs"
    by (simp add: fold foldl_setdefault_append_total)
  also have "\<dots> = length rows"
    using pairs by (metis length_map)
  finally have 3: "sum_list (map (\<lambda>col. length (features col)) cols) = length rows" .
  from pairs 1 2 3 show ?thesis by blast
qed


lemma process_csv_file_dimension:
  assumes "process_csv_file pf pu rows = Inr cols" and "col \<in> set cols" and "f \<in> set (features col)"
  shows "(crs_name (crs col) = ''EPSG:25832'' \<and> has_dimension 2 (geometry f))
       \<or> (crs_name (crs col) = ''EPSG:5972'' \<and> has_dimension 3 (geometry f))"
proof -
  from process_csv_file_Inr [OF assms(1)] assms(2) obtain pairs where
    pairs: "map (process_row pf pu) rows = map Inr pairs"
    and fs: "features col = map fst (filter (\<lambda>(f, c). crs_name c = crs_name (crs col)) pairs)"
    by blast
  from assms(3) fs obtain c where p: "(f, c) \<in> set pairs" and c: "crs_name c = crs_name (crs col)"
    by auto
  from p have "Inr (f, c) \<in> set (map (process_row pf pu) rows)"
    unfolding pairs by simp
  then obtain row where "process_row pf pu row = Inr (f, c)"
    by auto
  from process_row_dimension [OF this] c show ?thesis
    by simp
qed

lemma two_masts:
  assumes "process_row pf pu r1 = Inr (f1, c1)" and "process_row pf pu r2 = Inr (f2, c2)"
    and "row_get r1 ''Tabell ID'' = Some ''109''" and "row_get r2 ''Tabell ID'' = Some ''109''"
    and "truthy (row_get_default r1 ''z'' []) \<noteq> truthy (row_get_default r2 ''z'' [])"
  shows "process_csv_file pf pu [r1, r2]
     = Inr [\<lparr>crs = c1, features = [f1]\<rparr>, \<lparr>crs = c2, features = [f2]\<rparr>]
     \<and> crs_name c1 \<noteq> crs_name c2"
proof -
  note 1 = process_row_mast_crs [OF assms(1) assms(3)]
  note 2 = process_row_mast_crs [OF assms(2) assms(4)]
  from assms(5) 1 2 have n: "crs_name c1 \<noteq> crs_name c2"
    by (auto split: if_splits)
  from 1 have m1: "mk_crs (crs_name c1) = c1"
    by (simp split: if_splits)
  from 2 have m2: "mk_crs (crs_name c2) = c2"
    by (simp split: if_splits)
  from assms(1,2) n m1 m2 show ?thesis
    by (simp add: process_csv_file_def crs_name_def)
qed

text \<open>
  C4. Whenever a batch converts, every row has converted to a pair of a feature and a CRS,
  and of the collections returned: their CRS names are the names of the pairs in the order
  of first occurrence; the features of a collection are the features of the pairs with
  its name, in the order of the rows, each as often as it occurs; every feature of a
  collection named \<^verbatim>\<open>EPSG:25832\<close> has positions of two components and every feature of
  one named \<^verbatim>\<open>EPSG:5972\<close> of three, and there is no other name; the collections hold as
  many features as the batch has rows. Two mast rows that convert, one with a non-empty
  \<^verbatim>\<open>z\<close> and the other without, give two collections of different names, in the order
  of the rows, of one feature each.
\<close>

theorem grouping_by_crs:
  "(process_csv_file pf pu rows = Inr cols \<longrightarrow>
      (\<exists>pairs. map (process_row pf pu) rows = map Inr pairs
         \<and> map (\<lambda>col. crs_name (crs col)) cols
             = first_occurrences (map (\<lambda>(f, c). crs_name c) pairs)
         \<and> (\<forall>col\<in>set cols.
               features col = map fst (filter (\<lambda>(f, c). crs_name c = crs_name (crs col)) pairs))
         \<and> sum_list (map (\<lambda>col. length (features col)) cols) = length rows)
      \<and> (\<forall>col\<in>set cols. \<forall>f\<in>set (features col).
            (crs_name (crs col) = ''EPSG:25832'' \<and> has_dimension 2 (geometry f))
          \<or> (crs_name (crs col) = ''EPSG:5972'' \<and> has_dimension 3 (geometry f))))
   \<and> (process_row pf pu r1 = Inr (f1, c1) \<and> process_row pf pu r2 = Inr (f2, c2)
        \<and> row_get r1 ''Tabell ID'' = Some ''109'' \<and> row_get r2 ''Tabell ID'' = Some ''109''
        \<and> truthy (row_get_default r1 ''z'' []) \<noteq> truthy (row_get_default r2 ''z'' [])
      \<longrightarrow> process_csv_file pf pu [r1, r2]
            = Inr [\<lparr>crs = c1, features = [f1]\<rparr>, \<lparr>crs = c2, features = [f2]\<rparr>]
          \<and> crs_name c1 \<noteq> crs_name c2)"
proof (intro conjI impI ballI)
  assume "process_csv_file pf pu rows = Inr cols"
  then show "\<exists>pairs. map (process_row pf pu) rows = map Inr pairs
         \<and> map (\<lambda>col. crs_name (crs col)) cols
             = first_occurrences (map (\<lambda>(f, c). crs_name c) pairs)
         \<and> (\<forall>col\<in>set cols.
               features col = map fst (filter (\<lambda>(f, c). crs_name c = crs_name (crs col)) pairs))
         \<and> sum_list (map (\<lambda>col. length (features col)) cols) = length rows"
    by (rule process_csv_file_Inr)
next
  fix col f
  assume "process_csv_file pf pu rows = Inr cols" "col \<in> set cols" "f \<in> set (features col)"
  then show "(crs_name (crs col) = ''EPSG:25832'' \<and> has_dimension 2 (geometry f))
          \<or> (crs_name (crs col) = ''EPSG:5972'' \<and> has_dimension 3 (geometry f))"
    by (rule process_csv_file_dimension)
next
  assume "process_row pf pu r1 = Inr (f1, c1) \<and> process_row pf pu r2 = Inr (f2, c2)
        \<and> row_get r1 ''Tabell ID'' = Some ''109'' \<and> row_get r2 ''Tabell ID'' = Some ''109''
        \<and> truthy (row_get_default r1 ''z'' []) \<noteq> truthy (row_get_default r2 ''z'' [])"
  then have "process_csv_file pf pu [r1, r2]
            = Inr [\<lparr>crs = c1, features = [f1]\<rparr>, \<lparr>crs = c2, features = [f2]\<rparr>]
          \<and> crs_name c1 \<noteq> crs_name c2"
    using two_masts [of pf pu r1 f1 c1 r2 f2 c2] by blast
  then show "process_csv_file pf pu [r1, r2]
            = Inr [\<lparr>crs = c1, features = [f1]\<rparr>, \<lparr>crs = c2, features = [f2]\<rparr>]"
    and "crs_name c1 \<noteq> crs_name c2"
    by simp_all
qed

lemma batch_of_four:
  "process_csv_file decimal_float canonical_uuid [mast_row_flat, ac_row, mast_row_flat, guy_row]
     = Inr [\<lparr>crs = mk_crs ''EPSG:25832'', features = [mast_feature_flat, mast_feature_flat]\<rparr>,
            \<lparr>crs = mk_crs ''EPSG:5972'', features = [ac_feature, guy_feature]\<rparr>]"
  by (simp add: process_csv_file_def process_row_mast_flat process_row_ac process_row_guy)

theorem grouping_by_crs_witness:
  "process_csv_file decimal_float canonical_uuid [mast_row_z, mast_row_flat]
     = Inr [\<lparr>crs = mk_crs ''EPSG:5972'', features = [mast_feature_z]\<rparr>,
            \<lparr>crs = mk_crs ''EPSG:25832'', features = [mast_feature_flat]\<rparr>]
   \<and> process_csv_file decimal_float canonical_uuid [mast_row_flat, ac_row, mast_row_flat, guy_row]
     = Inr [\<lparr>crs = mk_crs ''EPSG:25832'', features = [mast_feature_flat, mast_feature_flat]\<rparr>,
            \<lparr>crs = mk_crs ''EPSG:5972'', features = [ac_feature, guy_feature]\<rparr>]
   \<and> (\<exists>pairs. map (process_row decimal_float canonical_uuid)
                  [mast_row_flat, ac_row, mast_row_flat, guy_row] = map Inr pairs
         \<and> [''EPSG:25832'', ''EPSG:5972''] = first_occurrences (map (\<lambda>(f, c). crs_name c) pairs)
         \<and> [mast_feature_flat, mast_feature_flat]
             = map fst (filter (\<lambda>(f, c). crs_name c = ''EPSG:25832'') pairs)
         \<and> [ac_feature, guy_feature]
             = map fst (filter (\<lambda>(f, c). crs_name c = ''EPSG:5972'') pairs))
   \<and> has_dimension 2 (geometry mast_feature_flat)
   \<and> has_dimension 3 (geometry ac_feature)"
proof -
  let ?rows = "[mast_row_flat, ac_row, mast_row_flat, guy_row]"
  let ?c1 = "\<lparr>crs = mk_crs ''EPSG:25832'', features = [mast_feature_flat, mast_feature_flat]\<rparr>"
  let ?c2 = "\<lparr>crs = mk_crs ''EPSG:5972'', features = [ac_feature, guy_feature]\<rparr>"
  note group = grouping_by_crs [THEN conjunct1, rule_format, OF batch_of_four]
  note two = grouping_by_crs [THEN conjunct2, rule_format]
  have t: "row_get mast_row_z ''Tabell ID'' = Some ''109''"
    "row_get mast_row_flat ''Tabell ID'' = Some ''109''"
    "truthy (row_get_default mast_row_z ''z'' []) \<noteq> truthy (row_get_default mast_row_flat ''z'' [])"
    by (simp_all add: row_get_def row_get_default_def mast_row_z_def mast_row_flat_def truthy_def)
  have 1: "process_csv_file decimal_float canonical_uuid [mast_row_z, mast_row_flat]
     = Inr [\<lparr>crs = mk_crs ''EPSG:5972'', features = [mast_feature_z]\<rparr>,
            \<lparr>crs = mk_crs ''EPSG:25832'', features = [mast_feature_flat]\<rparr>]"
    using two [of decimal_float canonical_uuid mast_row_z mast_feature_z "mk_crs ''EPSG:5972''"
        mast_row_flat mast_feature_flat "mk_crs ''EPSG:25832''"]
      process_row_mast_z process_row_mast_flat t
    by blast
  from group [THEN conjunct1]
  have 2: "\<exists>pairs. map (process_row decimal_float canonical_uuid) ?rows = map Inr pairs
         \<and> [''EPSG:25832'', ''EPSG:5972''] = first_occurrences (map (\<lambda>(f, c). crs_name c) pairs)
         \<and> [mast_feature_flat, mast_feature_flat]
             = map fst (filter (\<lambda>(f, c). crs_name c = ''EPSG:25832'') pairs)
         \<and> [ac_feature, guy_feature]
             = map fst (filter (\<lambda>(f, c). crs_name c = ''EPSG:5972'') pairs)"
    by simp
  from group [THEN conjunct2, rule_format, of ?c1 mast_feature_flat]
  have 3: "has_dimension 2 (geometry mast_feature_flat)"
    by simp
  from group [THEN conjunct2, rule_format, of ?c2 ac_feature]
  have 4: "has_dimension 3 (geometry ac_feature)"
    by simp
  from 1 2 3 4 batch_of_four show ?thesis by (intro conjI)
qed

subsection \<open>Rows of an unknown category\<close>

lemma process_row_unknown:
  "unknown_record_type row \<Longrightarrow>
     process_row pf pu row = Inl (ValueError (UnknownTabellID (row_get row ''Tabell ID'')))"
  by (simp add: process_row_def unknown_record_type_def)

lemma process_rows_first_error:
  assumes "\<forall>r\<in>set before. \<exists>p. process_row pf pu r = Inr p"
    and "process_row pf pu row = Inl e"
  shows "process_rows pf pu d (before @ row # after) = Inl e"
  using assms
proof (induction before arbitrary: d)
  case Nil
  then show ?case by simp
next
  case (Cons r before)
  from Cons.prems(1) obtain f c where "process_row pf pu r = Inr (f, c)"
    by auto
  with Cons show ?case by simp
qed

lemma process_rows_some_error:
  assumes "\<exists>r\<in>set rows. \<exists>e. process_row pf pu r = Inl e"
  shows "\<exists>e. process_rows pf pu d rows = Inl e"
  using assms
proof (induction rows arbitrary: d)
  case Nil
  then show ?case by simp
next
  case (Cons r rows)
  show ?case
  proof (cases "process_row pf pu r")
    case (Inl e)
    then show ?thesis by simp
  next
    case (Inr p)
    obtain f c where "p = (f, c)" by (cases p)
    with Inr Cons show ?thesis by auto
  qed
qed

text \<open>
  C5, as stated, fails on the batch of the row of \<^verbatim>\<open>test_csv_missing_status\<close> followed
  by the row of \<^verbatim>\<open>test_no_tabell_id\<close>: the second row has no category at all, and the
  conversion raises the ValueError of the status of the first row.
\<close>

theorem unknown_record_type_counterexample:
  "unknown_record_type no_table_row
   \<and> process_csv_file decimal_float canonical_uuid [no_status_row, no_table_row]
       = Inl (ValueError (UnknownStatus (Some [])))
   \<and> process_csv_file decimal_float canonical_uuid [no_status_row, no_table_row]
       \<noteq> Inl (ValueError (UnknownTabellID (row_get no_table_row ''Tabell ID'')))"
  by (simp add: process_csv_file_def process_row_no_status unknown_record_type_def
      row_get_def no_table_row_def)

text \<open>
  C5, amended. A batch with a row of an unknown category returns no collections: the
  conversion raises. If every row before such a row converts, the error is the ValueError
  \<^verbatim>\<open>Unknown Tabell ID\<close> with the category of that row, whatever rows follow and whatever
  features the rows before have given. In every batch the error raised is the error of the
  first row that fails: if every row before a row converts and that row raises \<open>e\<close>, the
  conversion raises \<open>e\<close>; so when a row before the row of an unknown category fails, it
  is the error of that earlier row that is raised.
\<close>

theorem unknown_record_type_aborts:
  "((\<exists>row\<in>set rows. unknown_record_type row) \<longrightarrow> (\<exists>e. process_csv_file pf pu rows = Inl e))
   \<and> ((\<forall>r\<in>set before. \<exists>p. process_row pf pu r = Inr p) \<and> unknown_record_type row \<longrightarrow>
        process_csv_file pf pu (before @ row # after)
          = Inl (ValueError (UnknownTabellID (row_get row ''Tabell ID''))))
   \<and> ((\<forall>r\<in>set before. \<exists>p. process_row pf pu r = Inr p) \<and> process_row pf pu row = Inl e \<longrightarrow>
        process_csv_file pf pu (before @ row # after) = Inl e)"
proof (intro conjI impI)
  assume "\<exists>row\<in>set rows. unknown_record_type row"
  then have "\<exists>r\<in>set rows. \<exists>e. process_row pf pu r = Inl e"
    using process_row_unknown [of _ pf pu] by blast
  from process_rows_some_error [OF this, of "[]"]
  show "\<exists>e. process_csv_file pf pu rows = Inl e"
    by (auto simp: process_csv_file_def)
next
  assume a: "(\<forall>r\<in>set before. \<exists>p. process_row pf pu r = Inr p) \<and> unknown_record_type row"
  then have "process_row pf pu row = Inl (ValueError (UnknownTabellID (row_get row ''Tabell ID'')))"
    by (simp add: process_row_unknown)
  with a have "process_rows pf pu [] (before @ row # after)
      = Inl (ValueError (UnknownTabellID (row_get row ''Tabell ID'')))"
    by (intro process_rows_first_error) simp_all
  then show "process_csv_file pf pu (before @ row # after)
          = Inl (ValueError (UnknownTabellID (row_get row ''Tabell ID'')))"
    by (simp add: process_csv_file_def)
next
  assume "(\<forall>r\<in>set before. \<exists>p. process_row pf pu r = Inr p) \<and> process_row pf pu row = Inl e"
  then have "process_rows pf pu [] (before @ row # after) = Inl e"
    by (intro process_rows_first_error) simp_all
  then show "process_csv_file pf pu (before @ row # after) = Inl e"
    by (simp add: process_csv_file_def)
qed

theorem unknown_record_type_aborts_witness:
  "unknown_record_type no_table_row
   \<and> (\<exists>e. process_csv_file decimal_float canonical_uuid [no_status_row, no_table_row] = Inl e)
   \<and> process_row decimal_float canonical_uuid mast_row_z = Inr (mast_feature_z, mk_crs ''EPSG:5972'')
   \<and> process_row decimal_float canonical_uuid ac_row = Inr (ac_feature, mk_crs ''EPSG:5972'')
   \<and> process_csv_file decimal_float canonical_uuid [mast_row_z, ac_row, no_table_row, no_status_row]
       = Inl (ValueError (UnknownTabellID None))
   \<and> process_csv_file decimal_float canonical_uuid [no_table_row]
       = Inl (ValueError (UnknownTabellID None))
   \<and> process_row decimal_float canonical_uuid no_status_row
       = Inl (ValueError (UnknownStatus (Some [])))
   \<and> process_csv_file decimal_float canonical_uuid [no_status_row, no_table_row]
       = Inl (ValueError (UnknownStatus (Some [])))
   \<and> process_csv_file decimal_float canonical_uuid [mast_row_z, ac_row, no_status_row, no_table_row]
       = Inl (ValueError (UnknownStatus (Some [])))"
proof -
  have u: "unknown_record_type no_table_row" "row_get no_table_row ''Tabell ID'' = None"
    by (simp_all add: unknown_record_type_def row_get_def no_table_row_def)
  have b: "\<forall>r\<in>set [mast_row_z, ac_row]. \<exists>p. process_row decimal_float canonical_uuid r = Inr p"
    by (simp add: process_row_mast_z process_row_ac)
  have b0: "\<forall>r\<in>set []. \<exists>p. process_row decimal_float canonical_uuid r = Inr p"
    by simp
  have m: "\<exists>row\<in>set [no_status_row, no_table_row]. unknown_record_type row"
    using u(1) by simp
  note some = unknown_record_type_aborts [THEN conjunct1, rule_format]
  note first = unknown_record_type_aborts [THEN conjunct2, THEN conjunct1, rule_format]
  note earlier = unknown_record_type_aborts [THEN conjunct2, THEN conjunct2, rule_format]
  note 1 = some [of "[no_status_row, no_table_row]" decimal_float canonical_uuid, OF m]
  from first [of "[mast_row_z, ac_row]" decimal_float canonical_uuid no_table_row "[no_status_row]",
      OF conjI [OF b u(1)]]
  have 2: "process_csv_file decimal_float canonical_uuid [mast_row_z, ac_row, no_table_row, no_status_row]
       = Inl (ValueError (UnknownTabellID None))"
    by (simp add: u(2))
  from first [of "[]" decimal_float canonical_uuid no_table_row "[]", OF conjI [OF b0 u(1)]]
  have 3: "process_csv_file decimal_float canonical_uuid [no_table_row]
       = Inl (ValueError (UnknownTabellID None))"
    by (simp add: u(2))
  from earlier [where pf = decimal_float and pu = canonical_uuid and before = "[]"
      and row = no_status_row and after = "[no_table_row]",
      OF conjI [OF b0 process_row_no_status]]
  have 4: "process_csv_file decimal_float canonical_uuid [no_status_row, no_table_row]
       = Inl (ValueError (UnknownStatus (Some [])))"
    by simp
  from earlier [where pf = decimal_float and pu = canonical_uuid and before = "[mast_row_z, ac_row]"
      and row = no_status_row and after = "[no_table_row]",
      OF conjI [OF b process_row_no_status]]
  have 5: "process_csv_file decimal_float canonical_uuid [mast_row_z, ac_row, no_status_row, no_table_row]
       = Inl (ValueError (UnknownStatus (Some [])))"
    by simp
  from u(1) 1 2 3 4 5 process_row_mast_z process_row_ac process_row_no_status
  show ?thesis by (intro conjI)
qed

end
